theory Spec2Isabelle
  imports Main "HOL-Library.Option_ord" "HOL-Library.Multiset"
begin

section \<open>The recipe and timer service of backend/app.py\<close>

text \<open>
  The service is a Flask application over two PostgreSQL tables. Each handler opens a
  connection, runs one or two SQL statements and turns the rows (or the exception) into
  a JSON response. The embedding follows that shape:
  \<^item> a table is the list of its rows, a row is a record with one field per column; a
    nullable column has an \<open>option\<close> type (\<open>None\<close> is SQL NULL); the order of the list
    only decides the order of rows with equal sort keys, which SQL leaves open;
  \<^item> the store together with what the process reads from its environment is the record
    \<open>world\<close>; a handler that commits returns the new world with its response;
  \<^item> a Python exception is a value of type \<open>exn\<close>; the \<open>try ... except Exception\<close> of every
    handler is the case split that turns \<open>Inl e\<close> into a 500 response;
  \<^item> a JSON request body is a record of fields, each absent, null or a value of the
    JSON type of its column (a string for a text column, a number, with or without a
    fraction, for an integer column); bodies that are not JSON objects, and fields of
    another JSON type, are outside the model;
  \<^item> a string is a list of characters and \<open>length\<close> counts characters;
  \<^item> \<open>datetime.isoformat\<close> and the message text of a PostgreSQL error are library
    behaviour: the handlers take them as the parameter \<open>L\<close>.
\<close>

subsection \<open>JSON values and responses\<close>

datatype json =
    JNull
  | JBool bool
  | JInt int
  | JDec int nat
  | JStr string
  | JArr "json list"
  | JObj "(string \<times> json) list"

text \<open>\<open>JDec m k\<close> is the number \<open>m / 10 ^ k\<close>, written with a fraction or an exponent.\<close>

record response =
  status :: nat
  body :: json

text \<open>\<open>jsonify(x)\<close> alone is a 200 response; \<open>jsonify(x), n\<close> has status \<open>n\<close>.\<close>

definition jsonify :: "json \<Rightarrow> nat \<Rightarrow> response" where
  "jsonify j n = \<lparr>status = n, body = j\<rparr>"

definition keys :: "json \<Rightarrow> string list" where
  "keys j = (case j of JObj kvs \<Rightarrow> map fst kvs | _ \<Rightarrow> [])"

definition lookup :: "json \<Rightarrow> string \<Rightarrow> json option" where
  "lookup j k = (case j of JObj kvs \<Rightarrow> map_of kvs k | _ \<Rightarrow> None)"

definition json_opt :: "('a \<Rightarrow> json) \<Rightarrow> 'a option \<Rightarrow> json" where
  "json_opt f v = (case v of None \<Rightarrow> JNull | Some x \<Rightarrow> f x)"

subsection \<open>Request bodies\<close>

datatype 'a field = Absent | Null | Val 'a

text \<open>
  A JSON number is parsed to a Python \<open>int\<close> when it is written as an integer and to a
  Python \<open>float\<close> otherwise. \<open>PyFloat m k\<close> is the float whose \<open>repr\<close> denotes \<open>m / 10 ^ k\<close>:
  that decimal is what the driver writes into the statement. The values NaN and Infinity,
  which no INTEGER column accepts, are not modelled.
\<close>

datatype number = PyInt int | PyFloat int nat

record recipe_payload =
  rp_title :: "string field"
  rp_ingredients :: "string field"
  rp_instructions :: "string field"
  rp_cooking_time :: "number field"
  rp_servings :: "number field"

record timer_payload =
  tp_recipe_id :: "number field"
  tp_step_number :: "number field"
  tp_step_description :: "string field"
  tp_duration_minutes :: "number field"

subsection \<open>Exceptions\<close>

datatype sqlstate =
    not_null_violation string
  | foreign_key_violation
  | unique_violation
  | string_data_right_truncation
  | numeric_value_out_of_range
  | sequence_generator_limit_exceeded

datatype exn =
    KeyError string
  | ValueError
  | DatabaseError sqlstate

record lib =
  isoformat :: "int \<Rightarrow> string"
  pg_message :: "sqlstate \<Rightarrow> string"

text \<open>\<open>str(e)\<close>: a KeyError prints the repr of its key.\<close>

definition str :: "lib \<Rightarrow> exn \<Rightarrow> string" where
  "str L e = (case e of
      KeyError k \<Rightarrow> [CHR 0x27] @ k @ [CHR 0x27]
    | ValueError \<Rightarrow> ''A string literal cannot contain NUL (0x00) characters.''
    | DatabaseError c \<Rightarrow> pg_message L c)"

fun exn_bind :: "exn + 'a \<Rightarrow> ('a \<Rightarrow> exn + 'b) \<Rightarrow> exn + 'b" where
  "exn_bind (Inl e) f = Inl e"
| "exn_bind (Inr x) f = f x"

text \<open>\<open>data[k]\<close> and \<open>data.get(k, d)\<close> on the request dictionary.\<close>

definition subscript :: "string \<Rightarrow> 'a field \<Rightarrow> exn + 'a option" where
  "subscript k f = (case f of
      Absent \<Rightarrow> Inl (KeyError k)
    | Null \<Rightarrow> Inr None
    | Val v \<Rightarrow> Inr (Some v))"

definition dict_get :: "'a field \<Rightarrow> 'a \<Rightarrow> 'a option" where
  "dict_get f d = (case f of Absent \<Rightarrow> Some d | Null \<Rightarrow> None | Val v \<Rightarrow> Some v)"

subsection \<open>The store\<close>

text \<open>
  The tables of \<open>init_db\<close>:
  \<^verbatim>\<open>
  recipes (id SERIAL PRIMARY KEY, title VARCHAR(255) NOT NULL, ingredients TEXT,
           instructions TEXT, cooking_time INTEGER DEFAULT 0, servings INTEGER DEFAULT 1,
           created_at TIMESTAMP DEFAULT CURRENT_TIMESTAMP)
  timers  (id SERIAL PRIMARY KEY, recipe_id INTEGER REFERENCES recipes(id) ON DELETE CASCADE,
           step_number INTEGER NOT NULL, step_description TEXT,
           duration_minutes INTEGER DEFAULT 0, active BOOLEAN DEFAULT FALSE,
           created_at TIMESTAMP DEFAULT CURRENT_TIMESTAMP)
  \<close>
  A timestamp is a number of microseconds.
\<close>

record recipe_row =
  r_id :: int
  r_title :: string
  r_ingredients :: "string option"
  r_instructions :: "string option"
  r_cooking_time :: "int option"
  r_servings :: "int option"
  r_created_at :: "int option"

record timer_row =
  t_id :: int
  t_recipe_id :: "int option"
  t_step_number :: int
  t_step_description :: "string option"
  t_duration_minutes :: "int option"
  t_active :: "bool option"
  t_created_at :: "int option"

text \<open>
  \<open>connectable\<close>: the four environment variables are set and \<open>psycopg2.connect\<close> succeeds.
  \<open>recipes_id_seq\<close> and \<open>timers_id_seq\<close> are the next values of the two SERIAL sequences,
  \<open>current_timestamp\<close> is the database clock, \<open>now\<close> the clock of the process.
\<close>

record world =
  connectable :: bool
  recipes :: "recipe_row list"
  timers :: "timer_row list"
  recipes_id_seq :: int
  timers_id_seq :: int
  current_timestamp :: int
  pg_version :: string
  now :: int

definition get_db_connection :: "world \<Rightarrow> unit option" where
  "get_db_connection w = (if connectable w then Some () else None)"

subsection \<open>What the driver and the column types do to a parameter\<close>

text \<open>psycopg2 refuses to quote a string that holds a NUL character.\<close>

definition adapt_text :: "string option \<Rightarrow> exn + string option" where
  "adapt_text v = (case v of
      None \<Rightarrow> Inr None
    | Some s \<Rightarrow> if CHR 0x00 \<in> set s then Inl ValueError else Inr (Some s))"

text \<open>
  Assignment to VARCHAR(n): a longer string is an error, unless all the excess characters
  are spaces, which are cut off.
\<close>

definition to_varchar :: "nat \<Rightarrow> string option \<Rightarrow> exn + string option" where
  "to_varchar n v = (case v of
      None \<Rightarrow> Inr None
    | Some s \<Rightarrow>
        if length s \<le> n then Inr (Some s)
        else if list_all (\<lambda>c. c = CHR 0x20) (drop n s) then Inr (Some (take n s))
        else Inl (DatabaseError string_data_right_truncation))"

text \<open>INTEGER is a signed 32-bit column; Python integers are unbounded.\<close>

definition int4 :: "int \<Rightarrow> bool" where
  "int4 n \<longleftrightarrow> - 2147483648 \<le> n \<and> n \<le> 2147483647"

text \<open>
  A literal with a fraction or an exponent has the type NUMERIC. Assigned to an INTEGER
  column, the NUMERIC \<open>m / 10 ^ k\<close> is rounded to the nearest integer, a half away from zero.
\<close>

definition numeric_to_integer :: "int \<Rightarrow> nat \<Rightarrow> int" where
  "numeric_to_integer m k =
     (if 0 \<le> m then (2 * m + 10 ^ k) div (2 * 10 ^ k)
      else - ((2 * (- m) + 10 ^ k) div (2 * 10 ^ k)))"

definition to_integer :: "number option \<Rightarrow> exn + int option" where
  "to_integer v = (case v of
      None \<Rightarrow> Inr None
    | Some (PyInt n) \<Rightarrow>
        if int4 n then Inr (Some n) else Inl (DatabaseError numeric_value_out_of_range)
    | Some (PyFloat m k) \<Rightarrow>
        if int4 (numeric_to_integer m k) then Inr (Some (numeric_to_integer m k))
        else Inl (DatabaseError numeric_value_out_of_range))"

text \<open>\<open>nextval\<close> of a SERIAL sequence: 1, 2, ... up to the largest INTEGER.\<close>

definition nextval :: "int \<Rightarrow> exn + int" where
  "nextval s = (if 2147483647 < s then Inl (DatabaseError sequence_generator_limit_exceeded)
                else Inr s)"

subsection \<open>The SQL statements\<close>

text \<open>
  \<^verbatim>\<open>INSERT INTO recipes (title, ingredients, instructions, cooking_time, servings)
  VALUES (%s, %s, %s, %s, %s) RETURNING id\<close>
  followed by \<open>conn.commit()\<close>. The parameters are quoted by the driver, then coerced to
  their columns; then the row gets its id from the sequence (a value taken from a sequence
  stays taken when the statement fails afterwards) and the NOT NULL and PRIMARY KEY
  constraints are checked. The result is the returned id, or the exception, and the
  committed store.
\<close>

definition recipe_values ::
  "string option \<Rightarrow> string option \<Rightarrow> string option \<Rightarrow> number option \<Rightarrow> number option
     \<Rightarrow> exn + string option \<times> string option \<times> string option \<times> int option \<times> int option" where
  "recipe_values title ingredients instructions cooking_time servings =
     exn_bind (adapt_text title) (\<lambda>a.
     exn_bind (adapt_text ingredients) (\<lambda>b.
     exn_bind (adapt_text instructions) (\<lambda>c.
     exn_bind (to_varchar 255 a) (\<lambda>a'.
     exn_bind (to_integer cooking_time) (\<lambda>d.
     exn_bind (to_integer servings) (\<lambda>e. Inr (a', b, c, d, e)))))))"

definition insert_recipe ::
  "world \<Rightarrow> string option \<Rightarrow> string option \<Rightarrow> string option \<Rightarrow> number option \<Rightarrow> number option
     \<Rightarrow> (exn + int) \<times> world" where
  "insert_recipe w title ingredients instructions cooking_time servings =
    (case exn_bind (recipe_values title ingredients instructions cooking_time servings) (\<lambda>vs.
          exn_bind (nextval (recipes_id_seq w)) (\<lambda>i. Inr (i, vs))) of
       Inl x \<Rightarrow> (Inl x, w)
     | Inr (i, a, b, c, d, e) \<Rightarrow>
         (let w' = w\<lparr>recipes_id_seq := i + 1\<rparr> in
          case a of
            None \<Rightarrow> (Inl (DatabaseError (not_null_violation ''title'')), w')
          | Some t \<Rightarrow>
              if i \<in> set (map r_id (recipes w)) then (Inl (DatabaseError unique_violation), w')
              else (Inr i,
                    w'\<lparr>recipes := recipes w @
                       [\<lparr>r_id = i, r_title = t, r_ingredients = b, r_instructions = c,
                         r_cooking_time = d, r_servings = e,
                         r_created_at = Some (current_timestamp w)\<rparr>]\<rparr>)))"

text \<open>\<open>REFERENCES recipes(id)\<close>: a value that is not NULL is the id of a recipe row.\<close>

definition references :: "recipe_row list \<Rightarrow> int option \<Rightarrow> bool" where
  "references rs v = (case v of None \<Rightarrow> True | Some r \<Rightarrow> r \<in> set (map r_id rs))"

text \<open>
  \<^verbatim>\<open>INSERT INTO timers (recipe_id, step_number, step_description, duration_minutes)
  VALUES (%s, %s, %s, %s) RETURNING id\<close>
  followed by \<open>conn.commit()\<close>. \<open>active\<close> and \<open>created_at\<close> take their defaults. The foreign
  key is checked for a recipe_id that is not NULL.
\<close>

definition timer_values ::
  "number option \<Rightarrow> number option \<Rightarrow> string option \<Rightarrow> number option
     \<Rightarrow> exn + int option \<times> int option \<times> string option \<times> int option" where
  "timer_values recipe_id step_number step_description duration_minutes =
     exn_bind (adapt_text step_description) (\<lambda>c.
     exn_bind (to_integer recipe_id) (\<lambda>a.
     exn_bind (to_integer step_number) (\<lambda>b.
     exn_bind (to_integer duration_minutes) (\<lambda>d. Inr (a, b, c, d)))))"

definition insert_timer ::
  "world \<Rightarrow> number option \<Rightarrow> number option \<Rightarrow> string option \<Rightarrow> number option
     \<Rightarrow> (exn + int) \<times> world" where
  "insert_timer w recipe_id step_number step_description duration_minutes =
    (case exn_bind (timer_values recipe_id step_number step_description duration_minutes) (\<lambda>vs.
          exn_bind (nextval (timers_id_seq w)) (\<lambda>i. Inr (i, vs))) of
       Inl x \<Rightarrow> (Inl x, w)
     | Inr (i, a, b, c, d) \<Rightarrow>
         (let w' = w\<lparr>timers_id_seq := i + 1\<rparr> in
          case b of
            None \<Rightarrow> (Inl (DatabaseError (not_null_violation ''step_number'')), w')
          | Some n \<Rightarrow>
              if i \<in> set (map t_id (timers w)) then (Inl (DatabaseError unique_violation), w')
              else if \<not> references (recipes w) a
              then (Inl (DatabaseError foreign_key_violation), w')
              else (Inr i,
                    w'\<lparr>timers := timers w @
                       [\<lparr>t_id = i, t_recipe_id = a, t_step_number = n, t_step_description = c,
                         t_duration_minutes = d, t_active = Some False,
                         t_created_at = Some (current_timestamp w)\<rparr>]\<rparr>)))"

text \<open>
  \<^verbatim>\<open>SELECT * FROM recipes ORDER BY created_at DESC\<close>: descending order puts NULL first.
  SQL leaves the order of rows with equal keys open; the model keeps them in table order.
\<close>

definition select_recipes :: "world \<Rightarrow> recipe_row list" where
  "select_recipes w = sort_key (\<lambda>r. map_option uminus (r_created_at r)) (recipes w)"

text \<open>\<^verbatim>\<open>SELECT * FROM recipes WHERE id = %s\<close> and \<open>fetchone()\<close>.\<close>

definition select_recipe :: "world \<Rightarrow> nat \<Rightarrow> recipe_row option" where
  "select_recipe w recipe_id = find (\<lambda>r. r_id r = int recipe_id) (recipes w)"

text \<open>\<^verbatim>\<open>SELECT * FROM timers WHERE recipe_id = %s ORDER BY step_number\<close>.\<close>

definition select_timers :: "world \<Rightarrow> nat \<Rightarrow> timer_row list" where
  "select_timers w recipe_id =
     sort_key t_step_number (filter (\<lambda>t. t_recipe_id t = Some (int recipe_id)) (timers w))"

text \<open>
  \<^verbatim>\<open>UPDATE timers SET active = NOT active WHERE id = %s RETURNING active\<close>, \<open>fetchone()\<close>
  and \<open>conn.commit()\<close>. NOT NULL is NULL.
\<close>

definition update_timer_active :: "world \<Rightarrow> nat \<Rightarrow> bool option option \<times> world" where
  "update_timer_active w timer_id =
     (let ts = map (\<lambda>t. if t_id t = int timer_id then t\<lparr>t_active := map_option Not (t_active t)\<rparr>
                         else t) (timers w)
      in (map_option t_active (find (\<lambda>t. t_id t = int timer_id) ts), w\<lparr>timers := ts\<rparr>))"

subsection \<open>The handlers\<close>

definition error_body :: "string \<Rightarrow> json" where
  "error_body m = JObj [(''error'', JStr m)]"

definition health_check :: "lib \<Rightarrow> world \<Rightarrow> response" where
  "health_check L w =
     jsonify (JObj [(''status'', JStr ''ok''),
                    (''message'', JStr ''ReceptenApp API is running!''),
                    (''timestamp'', JStr (isoformat L (now w)))]) 200"

definition db_test :: "world \<Rightarrow> response" where
  "db_test w = (case get_db_connection w of
      Some _ \<Rightarrow> jsonify (JObj [(''status'', JStr ''Connected''), (''version'', JStr (pg_version w))]) 200
    | None \<Rightarrow> jsonify (JObj [(''status'', JStr ''Failed''),
                              (''error'', JStr ''Could not create connection'')]) 500)"

definition recipe_json :: "lib \<Rightarrow> recipe_row \<Rightarrow> (string \<times> json) list" where
  "recipe_json L recipe =
     [(''id'', JInt (r_id recipe)),
      (''title'', JStr (r_title recipe)),
      (''ingredients'', json_opt JStr (r_ingredients recipe)),
      (''instructions'', json_opt JStr (r_instructions recipe)),
      (''cooking_time'', json_opt JInt (r_cooking_time recipe)),
      (''servings'', json_opt JInt (r_servings recipe)),
      (''created_at'', json_opt (\<lambda>t. JStr (isoformat L t)) (r_created_at recipe))]"

definition timer_json :: "timer_row \<Rightarrow> json" where
  "timer_json timer =
     JObj [(''id'', JInt (t_id timer)),
           (''step_number'', JInt (t_step_number timer)),
           (''step_description'', json_opt JStr (t_step_description timer)),
           (''duration_minutes'', json_opt JInt (t_duration_minutes timer)),
           (''active'', json_opt JBool (t_active timer))]"

definition get_recipes :: "lib \<Rightarrow> world \<Rightarrow> response" where
  "get_recipes L w = (case get_db_connection w of
      None \<Rightarrow> jsonify (error_body ''Database connection failed'') 500
    | Some _ \<Rightarrow> jsonify (JArr (map (\<lambda>recipe. JObj (recipe_json L recipe)) (select_recipes w))) 200)"

definition add_recipe :: "lib \<Rightarrow> world \<Rightarrow> recipe_payload \<Rightarrow> response \<times> world" where
  "add_recipe L w data = (case get_db_connection w of
      None \<Rightarrow> (jsonify (error_body ''Database connection failed'') 500, w)
    | Some _ \<Rightarrow>
        (case subscript ''title'' (rp_title data) of
           Inl e \<Rightarrow> (jsonify (error_body (str L e)) 500, w)
         | Inr title \<Rightarrow>
             (case insert_recipe w title
                     (dict_get (rp_ingredients data) '''')
                     (dict_get (rp_instructions data) '''')
                     (dict_get (rp_cooking_time data) (PyInt 0))
                     (dict_get (rp_servings data) (PyInt 1)) of
                (Inl e, w') \<Rightarrow> (jsonify (error_body (str L e)) 500, w')
              | (Inr recipe_id, w') \<Rightarrow>
                  (jsonify (JObj [(''message'', JStr ''Recept toegevoegd''),
                                  (''recipe_id'', JInt recipe_id)]) 201, w'))))"

definition get_recipe :: "lib \<Rightarrow> world \<Rightarrow> nat \<Rightarrow> response" where
  "get_recipe L w recipe_id = (case get_db_connection w of
      None \<Rightarrow> jsonify (error_body ''Database connection failed'') 500
    | Some _ \<Rightarrow>
        (case select_recipe w recipe_id of
           None \<Rightarrow> jsonify (error_body ''Recept niet gevonden'') 404
         | Some recipe \<Rightarrow>
             jsonify (JObj (recipe_json L recipe @
                            [(''timers'', JArr (map timer_json (select_timers w recipe_id)))])) 200))"

definition add_timer :: "lib \<Rightarrow> world \<Rightarrow> timer_payload \<Rightarrow> response \<times> world" where
  "add_timer L w data = (case get_db_connection w of
      None \<Rightarrow> (jsonify (error_body ''Database connection failed'') 500, w)
    | Some _ \<Rightarrow>
        (case exn_bind (subscript ''recipe_id'' (tp_recipe_id data)) (\<lambda>a.
              exn_bind (subscript ''step_number'' (tp_step_number data)) (\<lambda>b.
              exn_bind (subscript ''duration_minutes'' (tp_duration_minutes data)) (\<lambda>d.
                Inr (a, b, dict_get (tp_step_description data) '''', d)))) of
           Inl e \<Rightarrow> (jsonify (error_body (str L e)) 500, w)
         | Inr (a, b, c, d) \<Rightarrow>
             (case insert_timer w a b c d of
                (Inl e, w') \<Rightarrow> (jsonify (error_body (str L e)) 500, w')
              | (Inr timer_id, w') \<Rightarrow>
                  (jsonify (JObj [(''message'', JStr ''Timer toegevoegd''),
                                  (''timer_id'', JInt timer_id)]) 201, w'))))"

definition toggle_timer :: "world \<Rightarrow> nat \<Rightarrow> response \<times> world" where
  "toggle_timer w timer_id = (case get_db_connection w of
      None \<Rightarrow> (jsonify (error_body ''Database connection failed'') 500, w)
    | Some _ \<Rightarrow>
        (case update_timer_active w timer_id of
           (Some result, w') \<Rightarrow> (jsonify (JObj [(''active'', json_opt JBool result)]) 200, w')
         | (None, w') \<Rightarrow> (jsonify (error_body ''Timer niet gevonden'') 404, w')))"

text \<open>The routes of the application.\<close>

datatype request =
    GET_health
  | GET_db_test
  | GET_recipes
  | POST_recipes recipe_payload
  | GET_recipe nat
  | POST_timers timer_payload
  | POST_toggle nat

definition handle :: "lib \<Rightarrow> world \<Rightarrow> request \<Rightarrow> response \<times> world" where
  "handle L w rq = (case rq of
      GET_health \<Rightarrow> (health_check L w, w)
    | GET_db_test \<Rightarrow> (db_test w, w)
    | GET_recipes \<Rightarrow> (get_recipes L w, w)
    | POST_recipes data \<Rightarrow> add_recipe L w data
    | GET_recipe recipe_id \<Rightarrow> (get_recipe L w recipe_id, w)
    | POST_timers data \<Rightarrow> add_timer L w data
    | POST_toggle timer_id \<Rightarrow> toggle_timer w timer_id)"

text \<open>The application serving one request after the other.\<close>

fun serve :: "lib \<Rightarrow> world \<Rightarrow> request list \<Rightarrow> world" where
  "serve L w [] = w"
| "serve L w (rq # rqs) = serve L (snd (handle L w rq)) rqs"

subsection \<open>Vocabulary of the properties\<close>

text \<open>
  Newest first: the creation time of \<open>a\<close> is not before that of \<open>b\<close>; a row without a
  creation time counts as newest, as it does in a descending SQL order.
\<close>

definition newer_first :: "int option \<Rightarrow> int option \<Rightarrow> bool" where
  "newer_first a b = (case a of None \<Rightarrow> True
                      | Some s \<Rightarrow> (case b of None \<Rightarrow> False | Some t \<Rightarrow> t \<le> s))"

text \<open>
  The stores the service can be in: what the schema enforces (the two primary keys, the
  foreign key), ids come from the sequences, which run from 1 to the largest INTEGER, and
  every timer has its active flag set, as every timer created by \<open>add_timer\<close> has.
\<close>

definition store_inv :: "world \<Rightarrow> bool" where
  "store_inv w \<longleftrightarrow>
     distinct (map r_id (recipes w)) \<and>
     distinct (map t_id (timers w)) \<and>
     0 < recipes_id_seq w \<and> recipes_id_seq w \<le> 2147483648 \<and>
     0 < timers_id_seq w \<and> timers_id_seq w \<le> 2147483648 \<and>
     list_all (\<lambda>r. 0 < r_id r \<and> r_id r < recipes_id_seq w) (recipes w) \<and>
     list_all (\<lambda>t. 0 < t_id t \<and> t_id t < timers_id_seq w) (timers w) \<and>
     list_all (\<lambda>t. references (recipes w) (t_recipe_id t)) (timers w) \<and>
     list_all (\<lambda>t. t_active t \<noteq> None) (timers w)"

text \<open>Two timer rows that agree on every column but \<open>active\<close>.\<close>

definition same_but_active :: "timer_row \<Rightarrow> timer_row \<Rightarrow> bool" where
  "same_but_active t t' \<longleftrightarrow> t' = t\<lparr>t_active := t_active t'\<rparr>"

text \<open>
  The value a response shows for a request field: the field's value, the default when the
  field is omitted, null when the request gives null.
\<close>

definition given :: "('a \<Rightarrow> json) \<Rightarrow> 'a \<Rightarrow> 'a field \<Rightarrow> json" where
  "given f d v = (case v of Absent \<Rightarrow> f d | Null \<Rightarrow> JNull | Val x \<Rightarrow> f x)"

text \<open>
  The integer of a request field whose number, if it has one, is an integer: the default
  when the field is omitted, NULL when the request gives null.
\<close>

definition integer_given :: "int \<Rightarrow> number field \<Rightarrow> int option" where
  "integer_given d v = (case v of
      Absent \<Rightarrow> Some d
    | Null \<Rightarrow> None
    | Val (PyInt n) \<Rightarrow> Some n
    | Val (PyFloat m k) \<Rightarrow> None)"

text \<open>The JSON number a request number was parsed from.\<close>

definition number_json :: "number \<Rightarrow> json" where
  "number_json x = (case x of PyInt n \<Rightarrow> JInt n | PyFloat m k \<Rightarrow> JDec m k)"

text \<open>
  A recipe input the store holds as it is: the title is a text of at most 255 characters,
  a text has no NUL character, a number is an integer that fits an INTEGER column.
  Optional fields may be omitted or null.
\<close>

definition text_ok :: "string field \<Rightarrow> bool" where
  "text_ok v = (case v of Val s \<Rightarrow> CHR 0x00 \<notin> set s | _ \<Rightarrow> True)"

definition integer_ok :: "number field \<Rightarrow> bool" where
  "integer_ok v = (case v of Val (PyInt n) \<Rightarrow> int4 n | Val (PyFloat m k) \<Rightarrow> False | _ \<Rightarrow> True)"

definition valid_recipe_input :: "recipe_payload \<Rightarrow> bool" where
  "valid_recipe_input data \<longleftrightarrow>
     (case rp_title data of Val s \<Rightarrow> length s \<le> 255 \<and> CHR 0x00 \<notin> set s | _ \<Rightarrow> False) \<and>
     text_ok (rp_ingredients data) \<and> text_ok (rp_instructions data) \<and>
     integer_ok (rp_cooking_time data) \<and> integer_ok (rp_servings data)"

text \<open>
  A timer input the store holds as it is: recipe_id is the id of a stored recipe,
  step_number and duration_minutes are integers that fit INTEGER, the description, when
  given, is a text without NUL.
\<close>

definition valid_timer_input :: "world \<Rightarrow> timer_payload \<Rightarrow> bool" where
  "valid_timer_input w data \<longleftrightarrow>
     (case tp_recipe_id data of
        Val (PyInt r) \<Rightarrow> r \<in> set (map r_id (recipes w)) | _ \<Rightarrow> False) \<and>
     (case tp_step_number data of Val (PyInt n) \<Rightarrow> int4 n | _ \<Rightarrow> False) \<and>
     (case tp_duration_minutes data of Val (PyInt d) \<Rightarrow> int4 d | _ \<Rightarrow> False) \<and>
     text_ok (tp_step_description data)"

text \<open>
  \<open>n\<close> is \<open>m / 10 ^ k\<close> rounded to the nearest integer, a half away from zero: \<open>n\<close> is less
  than a half away from \<open>m / 10 ^ k\<close>, or exactly a half away and the larger in size.
\<close>

definition nearest_integer :: "int \<Rightarrow> int \<Rightarrow> nat \<Rightarrow> bool" where
  "nearest_integer n m k \<longleftrightarrow>
     2 * \<bar>n * 10 ^ k - m\<bar> < 10 ^ k \<or>
     (2 * \<bar>n * 10 ^ k - m\<bar> = 10 ^ k \<and> \<bar>m\<bar> < \<bar>n\<bar> * 10 ^ k)"

text \<open>
  What an INTEGER column holds for a request number: the integer itself, or the nearest
  integer of a number with a fraction.
\<close>

definition stored_as :: "number \<Rightarrow> int option \<Rightarrow> bool" where
  "stored_as x v = (case x of
      PyInt n \<Rightarrow> v = Some n
    | PyFloat m k \<Rightarrow> (case v of None \<Rightarrow> False | Some n \<Rightarrow> nearest_integer n m k))"

text \<open>The numeric constraints of the data model, on a nullable INTEGER column.\<close>

definition positive :: "int option \<Rightarrow> bool" where
  "positive v = (case v of Some n \<Rightarrow> 0 < n | None \<Rightarrow> False)"

definition non_negative :: "int option \<Rightarrow> bool" where
  "non_negative v = (case v of Some n \<Rightarrow> 0 \<le> n | None \<Rightarrow> False)"

subsection \<open>Example values\<close>

definition some_lib :: lib where
  "some_lib = \<lparr>isoformat = (\<lambda>t. ''2024-05-01T12:00:00''), pg_message = (\<lambda>c. ''database error'')\<rparr>"

definition fresh_world :: world where
  "fresh_world = \<lparr>connectable = True, recipes = [], timers = [], recipes_id_seq = 1,
     timers_id_seq = 1, current_timestamp = 1000, pg_version = ''PostgreSQL'', now = 1000\<rparr>"

definition pasta_world :: world where
  "pasta_world = \<lparr>connectable = True,
     recipes = [\<lparr>r_id = 1, r_title = ''Pasta'', r_ingredients = Some '''',
                 r_instructions = Some '''', r_cooking_time = Some 20, r_servings = Some 2,
                 r_created_at = Some 1000\<rparr>],
     timers = [\<lparr>t_id = 1, t_recipe_id = Some 1, t_step_number = 2,
                t_step_description = Some ''boil'', t_duration_minutes = Some 5,
                t_active = Some False, t_created_at = Some 2000\<rparr>,
               \<lparr>t_id = 2, t_recipe_id = Some 1, t_step_number = 1,
                t_step_description = Some '''', t_duration_minutes = Some 10,
                t_active = Some True, t_created_at = Some 3000\<rparr>],
     recipes_id_seq = 2, timers_id_seq = 3, current_timestamp = 4000,
     pg_version = ''PostgreSQL'', now = 4000\<rparr>"

definition menu_world :: world where
  "menu_world = \<lparr>connectable = True,
     recipes = [\<lparr>r_id = 1, r_title = ''Pasta'', r_ingredients = Some '''',
                 r_instructions = Some '''', r_cooking_time = Some 20, r_servings = Some 2,
                 r_created_at = Some 1000\<rparr>,
                \<lparr>r_id = 2, r_title = ''Soup'', r_ingredients = None,
                 r_instructions = Some ''simmer'', r_cooking_time = Some 45, r_servings = Some 4,
                 r_created_at = Some 3000\<rparr>,
                \<lparr>r_id = 3, r_title = ''Salad'', r_ingredients = Some ''lettuce'',
                 r_instructions = Some '''', r_cooking_time = Some 0, r_servings = Some 1,
                 r_created_at = Some 2000\<rparr>],
     timers = [], recipes_id_seq = 4, timers_id_seq = 1, current_timestamp = 4000,
     pg_version = ''PostgreSQL'', now = 4000\<rparr>"

definition pasta_input :: recipe_payload where
  "pasta_input = \<lparr>rp_title = Val ''Pasta'', rp_ingredients = Absent, rp_instructions = Absent,
     rp_cooking_time = Val (PyInt 20), rp_servings = Val (PyInt 2)\<rparr>"

definition boil_input :: timer_payload where
  "boil_input = \<lparr>tp_recipe_id = Val (PyInt 1), tp_step_number = Val (PyInt 1),
     tp_step_description = Absent, tp_duration_minutes = Val (PyInt 5)\<rparr>"

definition orphan_input :: timer_payload where
  "orphan_input = \<lparr>tp_recipe_id = Null, tp_step_number = Val (PyInt 1),
     tp_step_description = Absent, tp_duration_minutes = Val (PyInt 5)\<rparr>"

definition odd_input :: recipe_payload where
  "odd_input = \<lparr>rp_title = Val ''Soup'', rp_ingredients = Absent, rp_instructions = Absent,
     rp_cooking_time = Val (PyInt (- 5)), rp_servings = Val (PyInt 0)\<rparr>"

definition long_title_input :: recipe_payload where
  "long_title_input = \<lparr>rp_title = Val (replicate 255 (CHR ''a'') @ '' ''),
     rp_ingredients = Absent, rp_instructions = Absent, rp_cooking_time = Absent,
     rp_servings = Absent\<rparr>"

definition halves_input :: recipe_payload where
  "halves_input = \<lparr>rp_title = Val ''Stew'', rp_ingredients = Absent, rp_instructions = Absent,
     rp_cooking_time = Val (PyFloat 35 1), rp_servings = Val (PyFloat 25 1)\<rparr>"

definition half_timer_input :: timer_payload where
  "half_timer_input = \<lparr>tp_recipe_id = Val (PyInt 1), tp_step_number = Val (PyInt 3),
     tp_step_description = Absent, tp_duration_minutes = Val (PyFloat (- 25) 1)\<rparr>"

section \<open>Properties\<close>

subsection \<open>The SQL statements\<close>



lemma exn_bind_Inr: "exn_bind m f = Inr y \<longleftrightarrow> (\<exists>x. m = Inr x \<and> f x = Inr y)"
  by (cases m) auto

lemma exn_bind_Inl: "exn_bind m f = Inl e \<longleftrightarrow> m = Inl e \<or> (\<exists>x. m = Inr x \<and> f x = Inl e)"
  by (cases m) auto

lemma adapt_text_Inr: "adapt_text v = Inr v' \<longleftrightarrow> v' = v \<and> (case v of None \<Rightarrow> True | Some s \<Rightarrow> CHR 0x00 \<notin> set s)"
  by (auto simp: adapt_text_def split: option.splits)

lemma to_integer_Inr:
  "to_integer v = Inr v' \<longleftrightarrow>
     (case v of
        None \<Rightarrow> v' = None
      | Some (PyInt n) \<Rightarrow> int4 n \<and> v' = Some n
      | Some (PyFloat m k) \<Rightarrow>
          int4 (numeric_to_integer m k) \<and> v' = Some (numeric_to_integer m k))"
  by (auto simp: to_integer_def split: option.splits number.splits)

lemma to_integer_int4:
  "to_integer v = Inr (Some n) \<Longrightarrow> int4 n"
  by (auto simp: to_integer_Inr split: option.splits number.splits)

lemma to_integer_PyInt: "int4 n \<Longrightarrow> to_integer (Some (PyInt n)) = Inr (Some n)"
  by (simp add: to_integer_def)

lemma nextval_Inr: "nextval s = Inr i \<longleftrightarrow> i = s \<and> s \<le> 2147483647"
  by (auto simp: nextval_def)

lemma recipe_values_Inr:
  "recipe_values a b c d e = Inr vs \<longleftrightarrow>
     (\<exists>a' d' e'. vs = (a', b, c, d', e') \<and> adapt_text a = Inr a \<and> adapt_text b = Inr b \<and>
           adapt_text c = Inr c \<and> to_varchar 255 a = Inr a' \<and>
           to_integer d = Inr d' \<and> to_integer e = Inr e')"
  unfolding recipe_values_def exn_bind_Inr adapt_text_Inr by auto

lemma insert_recipe_Inr:
  "insert_recipe w a b c d e = (Inr i, w') \<longleftrightarrow>
     (\<exists>t d' e'. i = recipes_id_seq w \<and> recipes_id_seq w \<le> 2147483647 \<and>
          recipes_id_seq w \<notin> set (map r_id (recipes w)) \<and>
          recipe_values a b c d e = Inr (Some t, b, c, d', e') \<and>
          w' = w\<lparr>recipes_id_seq := recipes_id_seq w + 1,
                 recipes := recipes w @
                   [\<lparr>r_id = recipes_id_seq w, r_title = t, r_ingredients = b, r_instructions = c,
                     r_cooking_time = d', r_servings = e',
                     r_created_at = Some (current_timestamp w)\<rparr>]\<rparr>)"
proof (cases "recipe_values a b c d e")
  case (Inl x)
  then show ?thesis by (simp add: insert_recipe_def)
next
  case (Inr vs)
  then obtain a' d' e' where vs: "vs = (a', b, c, d', e')"
    by (auto simp: recipe_values_Inr)
  show ?thesis
  proof (cases "nextval (recipes_id_seq w)")
    case (Inl x)
    then have "\<not> recipes_id_seq w \<le> 2147483647" by (auto simp: nextval_def split: if_splits)
    with Inl Inr show ?thesis by (simp add: insert_recipe_def)
  next
    case Inr2: (Inr j)
    then have j: "j = recipes_id_seq w" "recipes_id_seq w \<le> 2147483647"
      by (auto simp: nextval_Inr)
    show ?thesis
      using Inr Inr2 vs j
      by (cases a') (auto simp: insert_recipe_def Let_def)
  qed
qed

lemma insert_recipe_Inl:
  assumes "insert_recipe w a b c d e = (Inl x, w')"
  shows "w' = w \<or>
         recipes_id_seq w \<le> 2147483647 \<and> w' = w\<lparr>recipes_id_seq := recipes_id_seq w + 1\<rparr>"
proof (cases "recipe_values a b c d e")
  case (Inl y)
  with assms show ?thesis by (simp add: insert_recipe_def)
next
  case (Inr vs)
  obtain a' b' c' d' e' where vs: "vs = (a', b', c', d', e')" by (cases vs) auto
  show ?thesis
  proof (cases "nextval (recipes_id_seq w)")
    case (Inl y)
    with Inr assms show ?thesis by (simp add: insert_recipe_def)
  next
    case Inr2: (Inr j)
    then have j: "j = recipes_id_seq w" "recipes_id_seq w \<le> 2147483647"
      by (auto simp: nextval_Inr)
    show ?thesis
      using Inr Inr2 vs j assms
      by (cases a') (auto simp: insert_recipe_def Let_def split: if_splits)
  qed
qed


lemma timer_values_Inr:
  "timer_values a b c d = Inr vs \<longleftrightarrow>
     (\<exists>a' b' d'. vs = (a', b', c, d') \<and> adapt_text c = Inr c \<and> to_integer a = Inr a' \<and>
        to_integer b = Inr b' \<and> to_integer d = Inr d')"
  unfolding timer_values_def exn_bind_Inr adapt_text_Inr by auto

lemma insert_timer_Inr:
  "insert_timer w a b c d = (Inr i, w') \<longleftrightarrow>
     (\<exists>n a' d'. i = timers_id_seq w \<and> timers_id_seq w \<le> 2147483647 \<and>
          timers_id_seq w \<notin> set (map t_id (timers w)) \<and>
          references (recipes w) a' \<and>
          timer_values a b c d = Inr (a', Some n, c, d') \<and>
          w' = w\<lparr>timers_id_seq := timers_id_seq w + 1,
                 timers := timers w @
                   [\<lparr>t_id = timers_id_seq w, t_recipe_id = a', t_step_number = n,
                     t_step_description = c, t_duration_minutes = d', t_active = Some False,
                     t_created_at = Some (current_timestamp w)\<rparr>]\<rparr>)"
proof (cases "timer_values a b c d")
  case (Inl x)
  then show ?thesis by (simp add: insert_timer_def)
next
  case (Inr vs)
  then obtain a' b' d' where vs: "vs = (a', b', c, d')"
    by (auto simp: timer_values_Inr)
  show ?thesis
  proof (cases "nextval (timers_id_seq w)")
    case (Inl x)
    then have "\<not> timers_id_seq w \<le> 2147483647" by (auto simp: nextval_def split: if_splits)
    with Inl Inr show ?thesis by (simp add: insert_timer_def)
  next
    case Inr2: (Inr j)
    then have j: "j = timers_id_seq w" "timers_id_seq w \<le> 2147483647"
      by (auto simp: nextval_Inr)
    show ?thesis
      using Inr Inr2 vs j
      by (cases b'; cases a') (auto simp: insert_timer_def Let_def)
  qed
qed

lemma insert_timer_Inl:
  assumes "insert_timer w a b c d = (Inl x, w')"
  shows "w' = w \<or>
         timers_id_seq w \<le> 2147483647 \<and> w' = w\<lparr>timers_id_seq := timers_id_seq w + 1\<rparr>"
proof (cases "timer_values a b c d")
  case (Inl y)
  with assms show ?thesis by (simp add: insert_timer_def)
next
  case (Inr vs)
  then obtain a' b' d' where vs: "vs = (a', b', c, d')"
    by (auto simp: timer_values_Inr)
  show ?thesis
  proof (cases "nextval (timers_id_seq w)")
    case (Inl y)
    with Inr assms show ?thesis by (simp add: insert_timer_def)
  next
    case Inr2: (Inr j)
    then have j: "j = timers_id_seq w" "timers_id_seq w \<le> 2147483647"
      by (auto simp: nextval_Inr)
    show ?thesis
      using Inr Inr2 vs j assms
      by (cases b'; cases a') (auto simp: insert_timer_def Let_def split: if_splits)
  qed
qed

lemma insert_recipe_created:
  assumes "insert_recipe w a b c d e = (Inr i, w')"
  shows "\<exists>row. i = recipes_id_seq w \<and> recipes_id_seq w \<le> 2147483647 \<and>
           recipes_id_seq w \<notin> set (map r_id (recipes w)) \<and>
           w' = w\<lparr>recipes_id_seq := recipes_id_seq w + 1, recipes := recipes w @ [row]\<rparr> \<and>
           r_id row = recipes_id_seq w \<and>
           to_varchar 255 a = Inr (Some (r_title row)) \<and>
           r_ingredients row = b \<and> r_instructions row = c \<and>
           to_integer d = Inr (r_cooking_time row) \<and>
           to_integer e = Inr (r_servings row) \<and>
           r_created_at row = Some (current_timestamp w)"
proof -
  from assms obtain t d' e' where
    "i = recipes_id_seq w" "recipes_id_seq w \<le> 2147483647"
    "recipes_id_seq w \<notin> set (map r_id (recipes w))"
    "recipe_values a b c d e = Inr (Some t, b, c, d', e')"
    "w' = w\<lparr>recipes_id_seq := recipes_id_seq w + 1,
           recipes := recipes w @
             [\<lparr>r_id = recipes_id_seq w, r_title = t, r_ingredients = b, r_instructions = c,
               r_cooking_time = d', r_servings = e',
               r_created_at = Some (current_timestamp w)\<rparr>]\<rparr>"
    unfolding insert_recipe_Inr by blast
  then show ?thesis
    by (intro exI [where x = "\<lparr>r_id = recipes_id_seq w, r_title = t, r_ingredients = b,
          r_instructions = c, r_cooking_time = d', r_servings = e',
          r_created_at = Some (current_timestamp w)\<rparr>"])
       (simp add: recipe_values_Inr)
qed

lemma insert_timer_created:
  assumes "insert_timer w a b c d = (Inr i, w')"
  shows "\<exists>row. i = timers_id_seq w \<and> timers_id_seq w \<le> 2147483647 \<and>
           timers_id_seq w \<notin> set (map t_id (timers w)) \<and>
           w' = w\<lparr>timers_id_seq := timers_id_seq w + 1, timers := timers w @ [row]\<rparr> \<and>
           t_id row = timers_id_seq w \<and>
           references (recipes w) (t_recipe_id row) \<and>
           to_integer a = Inr (t_recipe_id row) \<and>
           to_integer b = Inr (Some (t_step_number row)) \<and>
           t_step_description row = c \<and>
           to_integer d = Inr (t_duration_minutes row) \<and>
           t_active row = Some False \<and>
           t_created_at row = Some (current_timestamp w)"
proof -
  from assms obtain n a' d' where
    "i = timers_id_seq w" "timers_id_seq w \<le> 2147483647"
    "timers_id_seq w \<notin> set (map t_id (timers w))"
    "references (recipes w) a'"
    "timer_values a b c d = Inr (a', Some n, c, d')"
    "w' = w\<lparr>timers_id_seq := timers_id_seq w + 1,
           timers := timers w @
             [\<lparr>t_id = timers_id_seq w, t_recipe_id = a', t_step_number = n,
               t_step_description = c, t_duration_minutes = d', t_active = Some False,
               t_created_at = Some (current_timestamp w)\<rparr>]\<rparr>"
    unfolding insert_timer_Inr by blast
  then show ?thesis
    by (intro exI [where x = "\<lparr>t_id = timers_id_seq w, t_recipe_id = a', t_step_number = n,
          t_step_description = c, t_duration_minutes = d', t_active = Some False,
          t_created_at = Some (current_timestamp w)\<rparr>"])
       (simp add: timer_values_Inr)
qed

subsection \<open>The stores the service can be in\<close>

lemma add_recipe_effect:
  "snd (add_recipe L w data) = w \<or>
   recipes_id_seq w \<le> 2147483647 \<and>
   (snd (add_recipe L w data) = w\<lparr>recipes_id_seq := recipes_id_seq w + 1\<rparr> \<or>
   (\<exists>row. r_id row = recipes_id_seq w \<and> recipes_id_seq w \<notin> set (map r_id (recipes w)) \<and>
      snd (add_recipe L w data) =
        w\<lparr>recipes_id_seq := recipes_id_seq w + 1, recipes := recipes w @ [row]\<rparr>))"
proof (cases "connectable w")
  case False
  then show ?thesis by (simp add: add_recipe_def get_db_connection_def)
next
  case True
  show ?thesis
  proof (cases "subscript ''title'' (rp_title data)")
    case (Inl e)
    with True show ?thesis by (simp add: add_recipe_def get_db_connection_def)
  next
    case (Inr title)
    obtain res w' where ins: "insert_recipe w title (dict_get (rp_ingredients data) '''')
        (dict_get (rp_instructions data) '''') (dict_get (rp_cooking_time data) (PyInt 0))
        (dict_get (rp_servings data) (PyInt 1)) = (res, w')"
      by (cases "insert_recipe w title (dict_get (rp_ingredients data) '''')
        (dict_get (rp_instructions data) '''') (dict_get (rp_cooking_time data) (PyInt 0))
        (dict_get (rp_servings data) (PyInt 1))") auto
    show ?thesis
    proof (cases res)
      case (Inl x)
      with ins True Inr have "snd (add_recipe L w data) = w'"
        by (simp add: add_recipe_def get_db_connection_def)
      with insert_recipe_Inl [of w _ _ _ _ _ x w'] ins Inl show ?thesis by auto
    next
      case Inr2: (Inr i)
      with ins True Inr have s: "snd (add_recipe L w data) = w'"
        by (simp add: add_recipe_def get_db_connection_def)
      from ins Inr2 have "insert_recipe w title (dict_get (rp_ingredients data) '''')
          (dict_get (rp_instructions data) '''') (dict_get (rp_cooking_time data) (PyInt 0))
          (dict_get (rp_servings data) (PyInt 1)) = (Inr i, w')"
        by simp
      from insert_recipe_created [OF this] obtain row where
        "r_id row = recipes_id_seq w" "recipes_id_seq w \<le> 2147483647"
        "recipes_id_seq w \<notin> set (map r_id (recipes w))"
        "w' = w\<lparr>recipes_id_seq := recipes_id_seq w + 1, recipes := recipes w @ [row]\<rparr>"
        by blast
      then show ?thesis by (simp only: s) blast
    qed
  qed
qed

lemma add_timer_effect:
  "snd (add_timer L w data) = w \<or>
   timers_id_seq w \<le> 2147483647 \<and>
   (snd (add_timer L w data) = w\<lparr>timers_id_seq := timers_id_seq w + 1\<rparr> \<or>
   (\<exists>row. t_id row = timers_id_seq w \<and> timers_id_seq w \<notin> set (map t_id (timers w)) \<and>
      references (recipes w) (t_recipe_id row) \<and>
      t_active row = Some False \<and>
      snd (add_timer L w data) =
        w\<lparr>timers_id_seq := timers_id_seq w + 1, timers := timers w @ [row]\<rparr>))"
proof (cases "connectable w")
  case False
  then show ?thesis by (simp add: add_timer_def get_db_connection_def)
next
  case True
  show ?thesis
  proof (cases "exn_bind (subscript ''recipe_id'' (tp_recipe_id data)) (\<lambda>a.
              exn_bind (subscript ''step_number'' (tp_step_number data)) (\<lambda>b.
              exn_bind (subscript ''duration_minutes'' (tp_duration_minutes data)) (\<lambda>d.
                Inr (a, b, dict_get (tp_step_description data) '''', d))))")
    case (Inl e)
    with True show ?thesis by (simp add: add_timer_def get_db_connection_def)
  next
    case (Inr vs)
    obtain a b c d where vs: "vs = (a, b, c, d)" by (cases vs) auto
    obtain res w' where ins: "insert_timer w a b c d = (res, w')"
      by (cases "insert_timer w a b c d") auto
    show ?thesis
    proof (cases res)
      case (Inl x)
      with ins True Inr vs have "snd (add_timer L w data) = w'"
        by (simp add: add_timer_def get_db_connection_def)
      with insert_timer_Inl [of w a b c d x w'] ins Inl show ?thesis by auto
    next
      case Inr2: (Inr i)
      with ins True Inr vs have s: "snd (add_timer L w data) = w'"
        by (simp add: add_timer_def get_db_connection_def)
      from ins Inr2 have "insert_timer w a b c d = (Inr i, w')"
        by simp
      from insert_timer_created [OF this] obtain row where
        "t_id row = timers_id_seq w" "timers_id_seq w \<le> 2147483647"
        "timers_id_seq w \<notin> set (map t_id (timers w))"
        "references (recipes w) (t_recipe_id row)" "t_active row = Some False"
        "w' = w\<lparr>timers_id_seq := timers_id_seq w + 1, timers := timers w @ [row]\<rparr>"
        by blast
      then show ?thesis by (simp only: s) blast
    qed
  qed
qed

lemma toggle_timer_effect:
  "snd (toggle_timer w timer_id) = w \<or>
   snd (toggle_timer w timer_id) =
     w\<lparr>timers := map (\<lambda>t. if t_id t = int timer_id
                            then t\<lparr>t_active := map_option Not (t_active t)\<rparr> else t) (timers w)\<rparr>"
  by (cases "find (\<lambda>t. t_id t = int timer_id)
        (map (\<lambda>t. if t_id t = int timer_id
                   then t\<lparr>t_active := map_option Not (t_active t)\<rparr> else t) (timers w))")
     (simp_all add: toggle_timer_def get_db_connection_def update_timer_active_def Let_def)

lemma store_inv_fresh: "store_inv fresh_world"
  by (simp add: store_inv_def fresh_world_def)

lemma references_append: "references rs v \<Longrightarrow> references (rs @ [row]) v"
  by (cases v) (simp_all add: references_def)

lemma store_inv_seq_recipes:
  assumes "store_inv w" and "recipes_id_seq w \<le> 2147483647"
  shows "store_inv (w\<lparr>recipes_id_seq := recipes_id_seq w + 1\<rparr>)"
proof -
  have "list_all (\<lambda>r. 0 < r_id r \<and> r_id r < recipes_id_seq w + 1) (recipes w)"
    using assms by (auto simp: store_inv_def list_all_iff)
  then show ?thesis
    using assms by (simp add: store_inv_def)
qed

lemma store_inv_seq_timers:
  assumes "store_inv w" and "timers_id_seq w \<le> 2147483647"
  shows "store_inv (w\<lparr>timers_id_seq := timers_id_seq w + 1\<rparr>)"
proof -
  have "list_all (\<lambda>t. 0 < t_id t \<and> t_id t < timers_id_seq w + 1) (timers w)"
    using assms by (auto simp: store_inv_def list_all_iff)
  then show ?thesis
    using assms by (simp add: store_inv_def)
qed

lemma store_inv_new_recipe:
  assumes "store_inv w" and "r_id row = recipes_id_seq w"
    and "recipes_id_seq w \<le> 2147483647"
  shows "store_inv (w\<lparr>recipes_id_seq := recipes_id_seq w + 1, recipes := recipes w @ [row]\<rparr>)"
proof -
  have bound: "list_all (\<lambda>r. 0 < r_id r \<and> r_id r < recipes_id_seq w) (recipes w)"
    using assms(1) by (simp add: store_inv_def)
  have "recipes_id_seq w \<notin> set (map r_id (recipes w))"
    using bound by (auto simp: list_all_iff)
  then have "distinct (map r_id (recipes w @ [row]))"
    using assms by (simp add: store_inv_def)
  moreover have "list_all (\<lambda>r. 0 < r_id r \<and> r_id r < recipes_id_seq w + 1) (recipes w @ [row])"
    using bound assms by (auto simp: store_inv_def list_all_iff)
  moreover have "list_all (\<lambda>t. references (recipes w @ [row]) (t_recipe_id t)) (timers w)"
    using assms(1) by (auto simp: store_inv_def list_all_iff references_append)
  ultimately show ?thesis
    using assms(1,3) by (simp add: store_inv_def)
qed

lemma store_inv_new_timer:
  assumes "store_inv w" and "t_id row = timers_id_seq w"
    and "references (recipes w) (t_recipe_id row)"
    and "t_active row = Some False"
    and "timers_id_seq w \<le> 2147483647"
  shows "store_inv (w\<lparr>timers_id_seq := timers_id_seq w + 1, timers := timers w @ [row]\<rparr>)"
proof -
  have bound: "list_all (\<lambda>t. 0 < t_id t \<and> t_id t < timers_id_seq w) (timers w)"
    using assms(1) by (simp add: store_inv_def)
  have "timers_id_seq w \<notin> set (map t_id (timers w))"
    using bound by (auto simp: list_all_iff)
  then have "distinct (map t_id (timers w @ [row]))"
    using assms by (simp add: store_inv_def)
  moreover have "list_all (\<lambda>t. 0 < t_id t \<and> t_id t < timers_id_seq w + 1) (timers w @ [row])"
    using bound assms by (auto simp: store_inv_def list_all_iff)
  moreover have "list_all (\<lambda>t. references (recipes w) (t_recipe_id t)) (timers w @ [row])"
    using assms by (simp add: store_inv_def)
  moreover have "list_all (\<lambda>t. t_active t \<noteq> None) (timers w @ [row])"
    using assms by (auto simp: store_inv_def)
  ultimately show ?thesis
    using assms(1,5) by (simp add: store_inv_def)
qed

lemma toggled_ids:
  "map t_id (map (\<lambda>t. if t_id t = k then t\<lparr>t_active := map_option Not (t_active t)\<rparr> else t) ts) =
     map t_id ts"
  by (induction ts) auto

lemma store_inv_toggled:
  assumes "store_inv w"
  shows "store_inv (w\<lparr>timers := map (\<lambda>t. if t_id t = k
            then t\<lparr>t_active := map_option Not (t_active t)\<rparr> else t) (timers w)\<rparr>)"
proof -
  let ?g = "\<lambda>t. if t_id t = k then t\<lparr>t_active := map_option Not (t_active t)\<rparr> else t"
  have "distinct (map t_id (map ?g (timers w)))"
    using assms by (simp only: toggled_ids) (simp add: store_inv_def)
  moreover have "list_all (\<lambda>t. 0 < t_id t \<and> t_id t < timers_id_seq w) (map ?g (timers w))"
    using assms by (auto simp: store_inv_def list_all_iff)
  moreover have "list_all (\<lambda>t. references (recipes w) (t_recipe_id t)) (map ?g (timers w))"
    using assms by (auto simp: store_inv_def list_all_iff)
  moreover have "list_all (\<lambda>t. t_active t \<noteq> None) (map ?g (timers w))"
    using assms by (auto simp: store_inv_def list_all_iff)
  ultimately show ?thesis
    using assms unfolding store_inv_def by simp
qed

lemma store_inv_handle:
  assumes "store_inv w"
  shows "store_inv (snd (handle L w rq))"
proof (cases rq)
  case (POST_recipes data)
  with add_recipe_effect [of L w data] assms show ?thesis
    by (auto simp: handle_def store_inv_seq_recipes store_inv_new_recipe)
next
  case (POST_timers data)
  with add_timer_effect [of L w data] assms show ?thesis
    by (auto simp: handle_def store_inv_seq_timers store_inv_new_timer)
next
  case (POST_toggle timer_id)
  with toggle_timer_effect [of w timer_id] assms show ?thesis
    by (auto simp: handle_def store_inv_toggled)
qed (simp_all add: handle_def assms)

text \<open>Every store reached from a fresh one by serving requests is such a store.\<close>

lemma store_inv_serve:
  "store_inv w \<Longrightarrow> store_inv (serve L w rqs)"
  by (induction rqs arbitrary: w) (simp_all add: store_inv_handle)

lemma store_inv_pasta_world: "store_inv pasta_world"
  by (auto simp: store_inv_def pasta_world_def references_def)


subsection \<open>What a successful creation stores\<close>

lemma add_recipe_result:
  "(\<exists>title i. rp_title data \<noteq> Absent \<and> subscript ''title'' (rp_title data) = Inr title \<and>
      insert_recipe w title (dict_get (rp_ingredients data) '''')
        (dict_get (rp_instructions data) '''') (dict_get (rp_cooking_time data) (PyInt 0))
        (dict_get (rp_servings data) (PyInt 1)) = (Inr i, snd (add_recipe L w data)) \<and>
      fst (add_recipe L w data) =
        \<lparr>status = 201, body = JObj [(''message'', JStr ''Recept toegevoegd''),
                                    (''recipe_id'', JInt i)]\<rparr>) \<or>
   (status (fst (add_recipe L w data)) = 500 \<and>
    keys (body (fst (add_recipe L w data))) = [''error''] \<and>
    recipes (snd (add_recipe L w data)) = recipes w \<and>
    timers (snd (add_recipe L w data)) = timers w)"
proof (cases "connectable w")
  case False
  then show ?thesis
    by (simp add: add_recipe_def get_db_connection_def jsonify_def error_body_def keys_def)
next
  case True
  show ?thesis
  proof (cases "subscript ''title'' (rp_title data)")
    case (Inl e)
    with True show ?thesis
      by (simp add: add_recipe_def get_db_connection_def jsonify_def error_body_def keys_def)
  next
    case (Inr title)
    then have present: "rp_title data \<noteq> Absent"
      by (auto simp: subscript_def)
    obtain res w' where ins: "insert_recipe w title (dict_get (rp_ingredients data) '''')
        (dict_get (rp_instructions data) '''') (dict_get (rp_cooking_time data) (PyInt 0))
        (dict_get (rp_servings data) (PyInt 1)) = (res, w')"
      by (cases "insert_recipe w title (dict_get (rp_ingredients data) '''')
        (dict_get (rp_instructions data) '''') (dict_get (rp_cooking_time data) (PyInt 0))
        (dict_get (rp_servings data) (PyInt 1))") auto
    show ?thesis
    proof (cases res)
      case (Inl x)
      with ins True Inr have a: "add_recipe L w data = (jsonify (error_body (str L x)) 500, w')"
        by (simp add: add_recipe_def get_db_connection_def)
      from ins Inl have "insert_recipe w title (dict_get (rp_ingredients data) '''')
          (dict_get (rp_instructions data) '''') (dict_get (rp_cooking_time data) (PyInt 0))
          (dict_get (rp_servings data) (PyInt 1)) = (Inl x, w')"
        by simp
      from insert_recipe_Inl [OF this]
      have "recipes w' = recipes w \<and> timers w' = timers w"
        by auto
      then show ?thesis
        by (simp add: a jsonify_def error_body_def keys_def)
    next
      case Inr2: (Inr i)
      with ins True Inr have a: "add_recipe L w data =
          (\<lparr>status = 201, body = JObj [(''message'', JStr ''Recept toegevoegd''),
                                       (''recipe_id'', JInt i)]\<rparr>, w')"
        by (simp add: add_recipe_def get_db_connection_def jsonify_def)
      show ?thesis
        using present Inr ins Inr2 by (simp add: a)
    qed
  qed
qed

lemma add_timer_params_Inr:
  assumes "exn_bind (subscript ''recipe_id'' (tp_recipe_id data)) (\<lambda>a.
              exn_bind (subscript ''step_number'' (tp_step_number data)) (\<lambda>b.
              exn_bind (subscript ''duration_minutes'' (tp_duration_minutes data)) (\<lambda>d.
                Inr (a, b, dict_get (tp_step_description data) '''', d)))) = Inr vs"
  shows "tp_recipe_id data \<noteq> Absent \<and> tp_step_number data \<noteq> Absent \<and>
         tp_duration_minutes data \<noteq> Absent \<and>
         vs = (case tp_recipe_id data of Val r \<Rightarrow> Some r | _ \<Rightarrow> None,
               case tp_step_number data of Val n \<Rightarrow> Some n | _ \<Rightarrow> None,
               dict_get (tp_step_description data) '''',
               case tp_duration_minutes data of Val d \<Rightarrow> Some d | _ \<Rightarrow> None)"
  using assms
  by (cases "tp_recipe_id data"; cases "tp_step_number data"; cases "tp_duration_minutes data")
     (auto simp: subscript_def)

lemma add_timer_result:
  "(\<exists>i. tp_recipe_id data \<noteq> Absent \<and> tp_step_number data \<noteq> Absent \<and>
      tp_duration_minutes data \<noteq> Absent \<and>
      insert_timer w (case tp_recipe_id data of Val r \<Rightarrow> Some r | _ \<Rightarrow> None)
        (case tp_step_number data of Val n \<Rightarrow> Some n | _ \<Rightarrow> None)
        (dict_get (tp_step_description data) '''')
        (case tp_duration_minutes data of Val d \<Rightarrow> Some d | _ \<Rightarrow> None) =
        (Inr i, snd (add_timer L w data)) \<and>
      fst (add_timer L w data) =
        \<lparr>status = 201, body = JObj [(''message'', JStr ''Timer toegevoegd''),
                                    (''timer_id'', JInt i)]\<rparr>) \<or>
   (status (fst (add_timer L w data)) = 500 \<and>
    keys (body (fst (add_timer L w data))) = [''error''] \<and>
    recipes (snd (add_timer L w data)) = recipes w \<and>
    timers (snd (add_timer L w data)) = timers w)"
proof (cases "connectable w")
  case False
  then show ?thesis
    by (simp add: add_timer_def get_db_connection_def jsonify_def error_body_def keys_def)
next
  case True
  show ?thesis
  proof (cases "exn_bind (subscript ''recipe_id'' (tp_recipe_id data)) (\<lambda>a.
              exn_bind (subscript ''step_number'' (tp_step_number data)) (\<lambda>b.
              exn_bind (subscript ''duration_minutes'' (tp_duration_minutes data)) (\<lambda>d.
                Inr (a, b, dict_get (tp_step_description data) '''', d))))")
    case (Inl e)
    with True show ?thesis
      by (simp add: add_timer_def get_db_connection_def jsonify_def error_body_def keys_def)
  next
    case (Inr vs)
    let ?a = "case tp_recipe_id data of Val r \<Rightarrow> Some r | _ \<Rightarrow> None"
    let ?b = "case tp_step_number data of Val n \<Rightarrow> Some n | _ \<Rightarrow> None"
    let ?c = "dict_get (tp_step_description data) ''''"
    let ?d = "case tp_duration_minutes data of Val d \<Rightarrow> Some d | _ \<Rightarrow> None"
    from add_timer_params_Inr [OF Inr]
    have present: "tp_recipe_id data \<noteq> Absent" "tp_step_number data \<noteq> Absent"
        "tp_duration_minutes data \<noteq> Absent"
      and vs: "vs = (?a, ?b, ?c, ?d)"
      by simp_all
    obtain res w' where ins: "insert_timer w ?a ?b ?c ?d = (res, w')"
      by (cases "insert_timer w ?a ?b ?c ?d") auto
    show ?thesis
    proof (cases res)
      case (Inl x)
      with ins True Inr vs have a: "add_timer L w data = (jsonify (error_body (str L x)) 500, w')"
        by (simp add: add_timer_def get_db_connection_def)
      from ins Inl have "insert_timer w ?a ?b ?c ?d = (Inl x, w')"
        by simp
      from insert_timer_Inl [OF this]
      have "recipes w' = recipes w \<and> timers w' = timers w"
        by auto
      then show ?thesis
        by (simp add: a jsonify_def error_body_def keys_def)
    next
      case Inr2: (Inr i)
      with ins True Inr vs have a: "add_timer L w data =
          (\<lparr>status = 201, body = JObj [(''message'', JStr ''Timer toegevoegd''),
                                       (''timer_id'', JInt i)]\<rparr>, w')"
        by (simp add: add_timer_def get_db_connection_def jsonify_def)
      show ?thesis
        using present ins Inr2 by (simp add: a)
    qed
  qed
qed

lemma toggle_absent_map:
  "k \<notin> set (map t_id ts) \<Longrightarrow>
     map (\<lambda>t. if t_id t = k then t\<lparr>t_active := map_option Not (t_active t)\<rparr> else t) ts = ts"
  by (induction ts) auto

lemma find_absent: "k \<notin> set (map f xs) \<Longrightarrow> find (\<lambda>x. f x = k) xs = None"
  by (induction xs) auto

lemma update_timer_active_absent:
  assumes "int timer_id \<notin> set (map t_id (timers w))"
  shows "update_timer_active w timer_id = (None, w)"
  using assms by (simp add: update_timer_active_def toggle_absent_map find_absent)

text \<open>
  C3. With a connection, \<open>get_recipe\<close> on an id that no recipe has answers 404 with a body
  that holds the error field and nothing else, \<open>toggle_timer\<close> on an id that no timer has
  answers 404 as well, and the store after either request is the store before it.
\<close>

theorem not_found_404:
  assumes "connectable w"
  shows "(int recipe_id \<notin> set (map r_id (recipes w)) \<longrightarrow>
            handle L w (GET_recipe recipe_id) =
              (\<lparr>status = 404, body = JObj [(''error'', JStr ''Recept niet gevonden'')]\<rparr>, w)) \<and>
         (int timer_id \<notin> set (map t_id (timers w)) \<longrightarrow>
            handle L w (POST_toggle timer_id) =
              (\<lparr>status = 404, body = JObj [(''error'', JStr ''Timer niet gevonden'')]\<rparr>, w))"
  using assms
  by (simp add: handle_def get_recipe_def toggle_timer_def get_db_connection_def
      select_recipe_def find_absent update_timer_active_absent jsonify_def error_body_def)

theorem not_found_404_witness:
  "handle some_lib fresh_world (GET_recipe 7) =
     (\<lparr>status = 404, body = JObj [(''error'', JStr ''Recept niet gevonden'')]\<rparr>, fresh_world) \<and>
   handle some_lib fresh_world (POST_toggle 7) =
     (\<lparr>status = 404, body = JObj [(''error'', JStr ''Timer niet gevonden'')]\<rparr>, fresh_world)"
  using not_found_404 [of fresh_world 7 some_lib 7]
  by (simp add: fresh_world_def)


text \<open>
  C4, as stated, fails: a request without its title gets status 500, which is a server
  error status and not one of the client error statuses 400 to 499.
\<close>

theorem missing_title_counterexample:
  "status (fst (add_recipe some_lib fresh_world
      \<lparr>rp_title = Absent, rp_ingredients = Val ''flour'', rp_instructions = Absent,
        rp_cooking_time = Val (PyInt 20), rp_servings = Val (PyInt 2)\<rparr>)) = 500 \<and>
   \<not> (400 \<le> status (fst (add_recipe some_lib fresh_world
      \<lparr>rp_title = Absent, rp_ingredients = Val ''flour'', rp_instructions = Absent,
        rp_cooking_time = Val (PyInt 20), rp_servings = Val (PyInt 2)\<rparr>)) \<and>
      status (fst (add_recipe some_lib fresh_world
      \<lparr>rp_title = Absent, rp_ingredients = Val ''flour'', rp_instructions = Absent,
        rp_cooking_time = Val (PyInt 20), rp_servings = Val (PyInt 2)\<rparr>)) < 500)"
  by (simp add: add_recipe_def fresh_world_def get_db_connection_def subscript_def
      jsonify_def)

lemma add_timer_params_Inl:
  assumes "tp_recipe_id data = Absent \<or> tp_step_number data = Absent \<or>
           tp_duration_minutes data = Absent"
  shows "\<exists>k. exn_bind (subscript ''recipe_id'' (tp_recipe_id data)) (\<lambda>a.
              exn_bind (subscript ''step_number'' (tp_step_number data)) (\<lambda>b.
              exn_bind (subscript ''duration_minutes'' (tp_duration_minutes data)) (\<lambda>d.
                Inr (a, b, dict_get (tp_step_description data) '''', d)))) = Inl (KeyError k)"
  using assms
  by (cases "tp_recipe_id data"; cases "tp_step_number data"; cases "tp_duration_minutes data")
     (simp_all add: subscript_def)

text \<open>
  C4, amended. A request to create a recipe without the title field, and a request to
  create a timer without one of recipe_id, step_number and duration_minutes, is answered
  with status 500 and a body that holds the error field only, and the store stays as it
  was: no row is created.
\<close>

theorem missing_required_field_500:
  "(rp_title rdata = Absent \<longrightarrow>
      status (fst (add_recipe L w rdata)) = 500 \<and>
      keys (body (fst (add_recipe L w rdata))) = [''error''] \<and>
      snd (add_recipe L w rdata) = w) \<and>
   (tp_recipe_id tdata = Absent \<or> tp_step_number tdata = Absent \<or>
    tp_duration_minutes tdata = Absent \<longrightarrow>
      status (fst (add_timer L w tdata)) = 500 \<and>
      keys (body (fst (add_timer L w tdata))) = [''error''] \<and>
      snd (add_timer L w tdata) = w)"
proof (intro conjI impI)
  assume "rp_title rdata = Absent"
  then have r: "add_recipe L w rdata =
      (if connectable w then (jsonify (error_body (str L (KeyError ''title''))) 500, w)
       else (jsonify (error_body ''Database connection failed'') 500, w))"
    by (simp add: add_recipe_def get_db_connection_def subscript_def)
  show "status (fst (add_recipe L w rdata)) = 500"
    by (simp add: r jsonify_def)
  show "keys (body (fst (add_recipe L w rdata))) = [''error'']"
    by (simp add: r jsonify_def error_body_def keys_def)
  show "snd (add_recipe L w rdata) = w"
    by (simp add: r)
next
  assume "tp_recipe_id tdata = Absent \<or> tp_step_number tdata = Absent \<or>
          tp_duration_minutes tdata = Absent"
  from add_timer_params_Inl [OF this] obtain k where
    "exn_bind (subscript ''recipe_id'' (tp_recipe_id tdata)) (\<lambda>a.
       exn_bind (subscript ''step_number'' (tp_step_number tdata)) (\<lambda>b.
       exn_bind (subscript ''duration_minutes'' (tp_duration_minutes tdata)) (\<lambda>d.
         Inr (a, b, dict_get (tp_step_description tdata) '''', d)))) = Inl (KeyError k)"
    by blast
  then have t: "add_timer L w tdata =
      (if connectable w then (jsonify (error_body (str L (KeyError k))) 500, w)
       else (jsonify (error_body ''Database connection failed'') 500, w))"
    by (simp add: add_timer_def get_db_connection_def)
  show "status (fst (add_timer L w tdata)) = 500"
    by (simp add: t jsonify_def)
  show "keys (body (fst (add_timer L w tdata))) = [''error'']"
    by (simp add: t jsonify_def error_body_def keys_def)
  show "snd (add_timer L w tdata) = w"
    by (simp add: t)
qed

theorem missing_required_field_500_witness:
  "(status (fst (add_recipe some_lib fresh_world
       \<lparr>rp_title = Absent, rp_ingredients = Absent, rp_instructions = Absent,
         rp_cooking_time = Absent, rp_servings = Absent\<rparr>)) = 500 \<and>
    snd (add_recipe some_lib fresh_world
       \<lparr>rp_title = Absent, rp_ingredients = Absent, rp_instructions = Absent,
         rp_cooking_time = Absent, rp_servings = Absent\<rparr>) = fresh_world) \<and>
   (status (fst (add_timer some_lib fresh_world
       \<lparr>tp_recipe_id = Val (PyInt 1), tp_step_number = Val (PyInt 1), tp_step_description = Absent,
         tp_duration_minutes = Absent\<rparr>)) = 500 \<and>
    snd (add_timer some_lib fresh_world
       \<lparr>tp_recipe_id = Val (PyInt 1), tp_step_number = Val (PyInt 1), tp_step_description = Absent,
         tp_duration_minutes = Absent\<rparr>) = fresh_world)"
  using missing_required_field_500 [of
      "\<lparr>rp_title = Absent, rp_ingredients = Absent, rp_instructions = Absent,
        rp_cooking_time = Absent, rp_servings = Absent\<rparr>" some_lib fresh_world
      "\<lparr>tp_recipe_id = Val (PyInt 1), tp_step_number = Val (PyInt 1), tp_step_description = Absent,
        tp_duration_minutes = Absent\<rparr>"]
  by simp

lemma keys_timer_json:
  "keys (timer_json t) = [''id'', ''step_number'', ''step_description'', ''duration_minutes'', ''active'']"
  by (simp add: timer_json_def keys_def)

lemma lookup_timers_recipe_json: "map_of (recipe_json L r) ''timers'' = None"
  by (simp add: recipe_json_def)

lemma get_recipe_found:
  assumes "connectable w" and "select_recipe w recipe_id = Some recipe"
  shows "get_recipe L w recipe_id =
           \<lparr>status = 200,
            body = JObj (recipe_json L recipe @
                         [(''timers'', JArr (map timer_json (select_timers w recipe_id)))])\<rparr>"
  using assms by (simp add: get_recipe_def get_db_connection_def jsonify_def)

lemma lookup_timers_get_recipe:
  "lookup (body (get_recipe L w recipe_id)) ''timers'' =
     (if connectable w \<and> select_recipe w recipe_id \<noteq> None
      then Some (JArr (map timer_json (select_timers w recipe_id))) else None)"
  by (auto simp: get_recipe_def get_db_connection_def jsonify_def lookup_def error_body_def
      lookup_timers_recipe_json map_add_def split: option.splits)

text \<open>
  C10. Whenever the response of \<open>get_recipe\<close> has a timers field, that field is an array
  of objects whose fields are exactly id, step_number, step_description, duration_minutes
  and active: neither recipe_id nor created_at is among them. With a connection and a
  stored recipe the field is there, with one object for each selected timer row.
\<close>

theorem get_recipe_timer_fields:
  "(connectable w \<and> select_recipe w recipe_id \<noteq> None \<longrightarrow>
      lookup (body (get_recipe L w recipe_id)) ''timers'' =
        Some (JArr (map timer_json (select_timers w recipe_id)))) \<and>
   (\<forall>j. lookup (body (get_recipe L w recipe_id)) ''timers'' = Some j \<longrightarrow>
      (\<exists>ts. j = JArr ts \<and>
         list_all (\<lambda>x. keys x = [''id'', ''step_number'', ''step_description'',
                                   ''duration_minutes'', ''active''] \<and>
                        ''recipe_id'' \<notin> set (keys x) \<and> ''created_at'' \<notin> set (keys x)) ts))"
  by (auto simp: lookup_timers_get_recipe keys_timer_json list_all_iff)

theorem get_recipe_timer_fields_witness:
  "lookup (body (get_recipe some_lib pasta_world 1)) ''timers'' =
     Some (JArr [JObj [(''id'', JInt 2), (''step_number'', JInt 1),
                       (''step_description'', JStr ''''), (''duration_minutes'', JInt 10),
                       (''active'', JBool True)],
                 JObj [(''id'', JInt 1), (''step_number'', JInt 2),
                       (''step_description'', JStr ''boil''), (''duration_minutes'', JInt 5),
                       (''active'', JBool False)]]) \<and>
   list_all (\<lambda>x. keys x = [''id'', ''step_number'', ''step_description'',
                             ''duration_minutes'', ''active''])
     [JObj [(''id'', JInt 2), (''step_number'', JInt 1),
            (''step_description'', JStr ''''), (''duration_minutes'', JInt 10),
            (''active'', JBool True)],
      JObj [(''id'', JInt 1), (''step_number'', JInt 2),
            (''step_description'', JStr ''boil''), (''duration_minutes'', JInt 5),
            (''active'', JBool False)]]"
proof -
  have sel: "select_recipe pasta_world 1 \<noteq> None"
    by (simp add: select_recipe_def pasta_world_def)
  have con: "connectable pasta_world"
    by (simp add: pasta_world_def)
  have ts: "map timer_json (select_timers pasta_world 1) =
     [JObj [(''id'', JInt 2), (''step_number'', JInt 1),
            (''step_description'', JStr ''''), (''duration_minutes'', JInt 10),
            (''active'', JBool True)],
      JObj [(''id'', JInt 1), (''step_number'', JInt 2),
            (''step_description'', JStr ''boil''), (''duration_minutes'', JInt 5),
            (''active'', JBool False)]]"
    by (simp add: select_timers_def pasta_world_def timer_json_def json_opt_def)
  from get_recipe_timer_fields [of pasta_world 1 some_lib] sel con ts
  show ?thesis by (auto simp: keys_def)
qed


subsection \<open>Listing the recipes\<close>

lemma newer_first_key:
  "map_option uminus a \<le> map_option uminus b \<longleftrightarrow> newer_first a b"
  by (cases a; cases b) (simp_all add: newer_first_def)

lemma select_recipes_newest_first:
  "sorted_wrt (\<lambda>a b. newer_first (r_created_at a) (r_created_at b)) (select_recipes w)"
proof -
  have "sorted (map (\<lambda>r. map_option uminus (r_created_at r)) (select_recipes w))"
    unfolding select_recipes_def by (rule sorted_sort_key)
  then show ?thesis
    by (simp add: sorted_wrt_map newer_first_key)
qed

lemma recipe_json_fields:
  "recipe_json L r =
     [(''id'', JInt (r_id r)),
      (''title'', JStr (r_title r)),
      (''ingredients'', case r_ingredients r of None \<Rightarrow> JNull | Some s \<Rightarrow> JStr s),
      (''instructions'', case r_instructions r of None \<Rightarrow> JNull | Some s \<Rightarrow> JStr s),
      (''cooking_time'', case r_cooking_time r of None \<Rightarrow> JNull | Some n \<Rightarrow> JInt n),
      (''servings'', case r_servings r of None \<Rightarrow> JNull | Some n \<Rightarrow> JInt n),
      (''created_at'', case r_created_at r of None \<Rightarrow> JNull
                       | Some t \<Rightarrow> JStr (isoformat L t))]"
  by (simp add: recipe_json_def json_opt_def)

text \<open>
  C6. With a connection, \<open>get_recipes\<close> answers 200 with an array that has one object for
  each stored recipe row and no others: the rows of the answer are a permutation of the
  table, and the object of a row holds the row's id, title, ingredients, instructions,
  cooking_time and servings (null for NULL) and its creation time in ISO format. The rows
  come newest first, so the creation times never increase along the answer (a row without
  a creation time counts as newest, as in a descending SQL order); an empty table gives the
  empty array; and no object has a timers field.
\<close>

theorem get_recipes_newest_first:
  assumes "connectable w"
  shows "get_recipes L w =
           \<lparr>status = 200,
            body = JArr (map (\<lambda>r. JObj
              [(''id'', JInt (r_id r)),
               (''title'', JStr (r_title r)),
               (''ingredients'', case r_ingredients r of None \<Rightarrow> JNull | Some s \<Rightarrow> JStr s),
               (''instructions'', case r_instructions r of None \<Rightarrow> JNull | Some s \<Rightarrow> JStr s),
               (''cooking_time'', case r_cooking_time r of None \<Rightarrow> JNull | Some n \<Rightarrow> JInt n),
               (''servings'', case r_servings r of None \<Rightarrow> JNull | Some n \<Rightarrow> JInt n),
               (''created_at'', case r_created_at r of None \<Rightarrow> JNull
                                | Some t \<Rightarrow> JStr (isoformat L t))])
              (select_recipes w))\<rparr> \<and>
         mset (select_recipes w) = mset (recipes w) \<and>
         sorted_wrt (\<lambda>a b. case r_created_at a of None \<Rightarrow> True
            | Some s \<Rightarrow> (case r_created_at b of None \<Rightarrow> False | Some t \<Rightarrow> t \<le> s))
           (select_recipes w) \<and>
         (recipes w = [] \<longrightarrow> body (get_recipes L w) = JArr []) \<and>
         (\<forall>j. body (get_recipes L w) = JArr j \<longrightarrow>
            length j = length (recipes w) \<and>
            list_all (\<lambda>x. \<exists>kvs. x = JObj kvs \<and> ''timers'' \<notin> set (map fst kvs)) j)"
proof (intro conjI)
  show g: "get_recipes L w =
           \<lparr>status = 200,
            body = JArr (map (\<lambda>r. JObj
              [(''id'', JInt (r_id r)),
               (''title'', JStr (r_title r)),
               (''ingredients'', case r_ingredients r of None \<Rightarrow> JNull | Some s \<Rightarrow> JStr s),
               (''instructions'', case r_instructions r of None \<Rightarrow> JNull | Some s \<Rightarrow> JStr s),
               (''cooking_time'', case r_cooking_time r of None \<Rightarrow> JNull | Some n \<Rightarrow> JInt n),
               (''servings'', case r_servings r of None \<Rightarrow> JNull | Some n \<Rightarrow> JInt n),
               (''created_at'', case r_created_at r of None \<Rightarrow> JNull
                                | Some t \<Rightarrow> JStr (isoformat L t))])
              (select_recipes w))\<rparr>"
    using assms
    by (simp add: get_recipes_def get_db_connection_def jsonify_def recipe_json_fields)
  show m: "mset (select_recipes w) = mset (recipes w)"
    by (simp add: select_recipes_def)
  show "sorted_wrt (\<lambda>a b. case r_created_at a of None \<Rightarrow> True
            | Some s \<Rightarrow> (case r_created_at b of None \<Rightarrow> False | Some t \<Rightarrow> t \<le> s))
           (select_recipes w)"
    using select_recipes_newest_first [of w] by (simp add: newer_first_def)
  show "recipes w = [] \<longrightarrow> body (get_recipes L w) = JArr []"
    by (simp add: g select_recipes_def)
  have len: "length (select_recipes w) = length (recipes w)"
    using m by (rule mset_eq_length)
  show "\<forall>j. body (get_recipes L w) = JArr j \<longrightarrow>
            length j = length (recipes w) \<and>
            list_all (\<lambda>x. \<exists>kvs. x = JObj kvs \<and> ''timers'' \<notin> set (map fst kvs)) j"
    by (auto simp: g len list_all_iff)
qed

theorem get_recipes_newest_first_witness:
  "connectable menu_world \<and>
   get_recipes some_lib menu_world =
     \<lparr>status = 200,
      body = JArr
        [JObj [(''id'', JInt 2), (''title'', JStr ''Soup''), (''ingredients'', JNull),
               (''instructions'', JStr ''simmer''), (''cooking_time'', JInt 45),
               (''servings'', JInt 4), (''created_at'', JStr ''2024-05-01T12:00:00'')],
         JObj [(''id'', JInt 3), (''title'', JStr ''Salad''), (''ingredients'', JStr ''lettuce''),
               (''instructions'', JStr ''''), (''cooking_time'', JInt 0),
               (''servings'', JInt 1), (''created_at'', JStr ''2024-05-01T12:00:00'')],
         JObj [(''id'', JInt 1), (''title'', JStr ''Pasta''), (''ingredients'', JStr ''''),
               (''instructions'', JStr ''''), (''cooking_time'', JInt 20),
               (''servings'', JInt 2), (''created_at'', JStr ''2024-05-01T12:00:00'')]]\<rparr> \<and>
   map r_created_at (select_recipes menu_world) = [Some 3000, Some 2000, Some 1000] \<and>
   sorted_wrt (\<lambda>a b. case r_created_at a of None \<Rightarrow> True
            | Some s \<Rightarrow> (case r_created_at b of None \<Rightarrow> False | Some t \<Rightarrow> t \<le> s))
     (select_recipes menu_world) \<and>
   mset (select_recipes menu_world) = mset (recipes menu_world)"
proof -
  have con: "connectable menu_world"
    by (simp add: menu_world_def)
  have rows: "select_recipes menu_world =
      [\<lparr>r_id = 2, r_title = ''Soup'', r_ingredients = None,
        r_instructions = Some ''simmer'', r_cooking_time = Some 45, r_servings = Some 4,
        r_created_at = Some 3000\<rparr>,
       \<lparr>r_id = 3, r_title = ''Salad'', r_ingredients = Some ''lettuce'',
        r_instructions = Some '''', r_cooking_time = Some 0, r_servings = Some 1,
        r_created_at = Some 2000\<rparr>,
       \<lparr>r_id = 1, r_title = ''Pasta'', r_ingredients = Some '''',
        r_instructions = Some '''', r_cooking_time = Some 20, r_servings = Some 2,
        r_created_at = Some 1000\<rparr>]"
    by (simp add: select_recipes_def menu_world_def)
  from get_recipes_newest_first [OF con, of some_lib]
  have "get_recipes some_lib menu_world =
           \<lparr>status = 200,
            body = JArr (map (\<lambda>r. JObj
              [(''id'', JInt (r_id r)),
               (''title'', JStr (r_title r)),
               (''ingredients'', case r_ingredients r of None \<Rightarrow> JNull | Some s \<Rightarrow> JStr s),
               (''instructions'', case r_instructions r of None \<Rightarrow> JNull | Some s \<Rightarrow> JStr s),
               (''cooking_time'', case r_cooking_time r of None \<Rightarrow> JNull | Some n \<Rightarrow> JInt n),
               (''servings'', case r_servings r of None \<Rightarrow> JNull | Some n \<Rightarrow> JInt n),
               (''created_at'', case r_created_at r of None \<Rightarrow> JNull
                                | Some t \<Rightarrow> JStr (isoformat some_lib t))])
              (select_recipes menu_world))\<rparr>"
    and "mset (select_recipes menu_world) = mset (recipes menu_world)"
    and "sorted_wrt (\<lambda>a b. case r_created_at a of None \<Rightarrow> True
            | Some s \<Rightarrow> (case r_created_at b of None \<Rightarrow> False | Some t \<Rightarrow> t \<le> s))
           (select_recipes menu_world)"
    by blast+
  then show ?thesis
    using con by (simp add: rows some_lib_def)
qed

subsection \<open>Toggling a timer\<close>

lemma find_toggled:
  "find (\<lambda>t. t_id t = k)
     (map (\<lambda>t. if t_id t = k then t\<lparr>t_active := map_option Not (t_active t)\<rparr> else t) ts) =
   map_option (\<lambda>t. t\<lparr>t_active := map_option Not (t_active t)\<rparr>) (find (\<lambda>t. t_id t = k) ts)"
  by (induction ts) auto

lemma toggled_twice:
  "map (\<lambda>t. if t_id t = k then t\<lparr>t_active := map_option Not (t_active t)\<rparr> else t)
     (map (\<lambda>t. if t_id t = k then t\<lparr>t_active := map_option Not (t_active t)\<rparr> else t) ts) = ts"
proof (induction ts)
  case Nil
  show ?case by simp
next
  case (Cons t ts)
  have "map_option Not (map_option Not (t_active t)) = t_active t"
    by (cases "t_active t") simp_all
  with Cons show ?case by simp
qed

lemma toggle_timer_found:
  assumes "connectable w"
    and "find (\<lambda>t. t_id t = int timer_id) (timers w) = Some t"
  shows "toggle_timer w timer_id =
     (\<lparr>status = 200, body = JObj [(''active'', json_opt JBool (map_option Not (t_active t)))]\<rparr>,
      w\<lparr>timers := map (\<lambda>t. if t_id t = int timer_id
                             then t\<lparr>t_active := map_option Not (t_active t)\<rparr> else t) (timers w)\<rparr>)"
  using assms
  by (simp add: toggle_timer_def get_db_connection_def update_timer_active_def Let_def
      find_toggled jsonify_def)

lemma store_inv_active:
  assumes "store_inv w" and "find (\<lambda>t. t_id t = k) (timers w) = Some t"
  shows "\<exists>b. t_active t = Some b"
proof -
  from assms(2) have "t \<in> set (timers w)"
    by (auto simp: find_Some_iff in_set_conv_nth)
  with assms(1) show ?thesis
    by (auto simp: store_inv_def list_all_iff)
qed

text \<open>
  C2. For the id of a stored timer, in a store the service can be in and with a
  connection, \<open>toggle_timer\<close> answers 200 with the negation of the stored flag, and that
  negation is what the store holds afterwards: the answer is the new value. A second call
  answers with the original value and gives back the original store.
\<close>

theorem toggle_timer_returns_new_value_and_is_involution:
  assumes "store_inv w" and "connectable w"
    and "find (\<lambda>t. t_id t = int timer_id) (timers w) = Some t"
  shows "\<exists>b. t_active t = Some b \<and>
     fst (toggle_timer w timer_id) =
       \<lparr>status = 200, body = JObj [(''active'', JBool (\<not> b))]\<rparr> \<and>
     map_option t_active
       (find (\<lambda>t. t_id t = int timer_id) (timers (snd (toggle_timer w timer_id)))) =
       Some (Some (\<not> b)) \<and>
     fst (toggle_timer (snd (toggle_timer w timer_id)) timer_id) =
       \<lparr>status = 200, body = JObj [(''active'', JBool b)]\<rparr> \<and>
     snd (toggle_timer (snd (toggle_timer w timer_id)) timer_id) = w"
proof -
  let ?g = "\<lambda>t. if t_id t = int timer_id
                 then t\<lparr>t_active := map_option Not (t_active t)\<rparr> else t"
  let ?w1 = "w\<lparr>timers := map ?g (timers w)\<rparr>"
  let ?t1 = "t\<lparr>t_active := map_option Not (t_active t)\<rparr>"
  from store_inv_active [OF assms(1) assms(3)] obtain b where b: "t_active t = Some b"
    by blast
  have first: "toggle_timer w timer_id =
      (\<lparr>status = 200, body = JObj [(''active'', JBool (\<not> b))]\<rparr>, ?w1)"
    by (simp add: toggle_timer_found [OF assms(2) assms(3)] b json_opt_def)
  have found1: "find (\<lambda>t. t_id t = int timer_id) (timers ?w1) = Some ?t1"
    by (simp add: find_toggled assms(3))
  have con1: "connectable ?w1"
    using assms(2) by simp
  have second: "toggle_timer ?w1 timer_id =
      (\<lparr>status = 200, body = JObj [(''active'', JBool b)]\<rparr>, w)"
    by (simp add: toggle_timer_found [OF con1 found1] b json_opt_def toggled_twice
        del: map_map)
  show ?thesis
    using b first second found1 by simp
qed

theorem toggle_timer_returns_new_value_and_is_involution_witness:
  "fst (toggle_timer pasta_world 1) = \<lparr>status = 200, body = JObj [(''active'', JBool True)]\<rparr> \<and>
   fst (toggle_timer (snd (toggle_timer pasta_world 1)) 1) =
     \<lparr>status = 200, body = JObj [(''active'', JBool False)]\<rparr> \<and>
   snd (toggle_timer (snd (toggle_timer pasta_world 1)) 1) = pasta_world"
proof -
  note inv = store_inv_pasta_world
  have con: "connectable pasta_world"
    by (simp add: pasta_world_def)
  have found: "find (\<lambda>t. t_id t = int 1) (timers pasta_world) =
      Some \<lparr>t_id = 1, t_recipe_id = Some 1, t_step_number = 2,
            t_step_description = Some ''boil'', t_duration_minutes = Some 5,
            t_active = Some False, t_created_at = Some 2000\<rparr>"
    by (simp add: pasta_world_def)
  from toggle_timer_returns_new_value_and_is_involution [OF inv con found]
  show ?thesis by auto
qed

lemma same_but_active_refl: "same_but_active t t"
  by (simp add: same_but_active_def)

lemma toggled_frame:
  "list_all2 (\<lambda>t t'. same_but_active t t' \<and> (t_id t \<noteq> k \<longrightarrow> t' = t)) ts
     (map (\<lambda>t. if t_id t = k then t\<lparr>t_active := map_option Not (t_active t)\<rparr> else t) ts)"
  by (induction ts) (simp_all add: same_but_active_def)

lemma unchanged_frame:
  "list_all2 (\<lambda>t t'. same_but_active t t' \<and> (t_id t \<noteq> k \<longrightarrow> t' = t)) ts ts"
  by (induction ts) (simp_all add: same_but_active_def)

lemma toggle_timer_recipes: "recipes (snd (toggle_timer w timer_id)) = recipes w"
  using toggle_timer_effect [of w timer_id] by auto

lemma toggle_timer_timers:
  "list_all2 (\<lambda>t t'. same_but_active t t' \<and> (t_id t \<noteq> int timer_id \<longrightarrow> t' = t))
     (timers w) (timers (snd (toggle_timer w timer_id)))"
  using toggle_timer_effect [of w timer_id]
  by (auto simp: toggled_frame unchanged_frame)

lemma handle_recipes_kept: "\<exists>rs. recipes (snd (handle L w rq)) = recipes w @ rs"
proof (cases rq)
  case (POST_recipes data)
  with add_recipe_effect [of L w data] show ?thesis
    by (auto simp: handle_def)
next
  case (POST_timers data)
  with add_timer_effect [of L w data] show ?thesis
    by (auto simp: handle_def)
next
  case (POST_toggle timer_id)
  then show ?thesis
    by (simp add: handle_def toggle_timer_recipes)
qed (simp_all add: handle_def)

lemma handle_timers_kept:
  "\<exists>ts new. timers (snd (handle L w rq)) = ts @ new \<and> list_all2 same_but_active (timers w) ts"
proof -
  have same: "list_all2 same_but_active (timers w) (timers w)"
    by (simp add: list_all2_same same_but_active_refl)
  then have keep: "\<exists>ts new. timers w = ts @ new \<and> list_all2 same_but_active (timers w) ts"
    by (intro exI [where x = "timers w"] exI [where x = "[]"]) simp
  show ?thesis
  proof (cases rq)
    case (POST_recipes data)
    from add_recipe_effect [of L w data]
    have "timers (snd (add_recipe L w data)) = timers w"
      by auto
    with keep POST_recipes show ?thesis by (simp add: handle_def)
  next
    case (POST_timers data)
    from add_timer_effect [of L w data]
    consider "timers (snd (add_timer L w data)) = timers w"
      | row where "timers (snd (add_timer L w data)) = timers w @ [row]"
      by auto
    then show ?thesis
    proof cases
      case 1
      with keep POST_timers show ?thesis by (simp add: handle_def)
    next
      case 2
      with same POST_timers show ?thesis by (auto simp: handle_def)
    qed
  next
    case (POST_toggle timer_id)
    have "list_all2 same_but_active (timers w) (timers (snd (toggle_timer w timer_id)))"
      by (rule list_all2_mono [OF toggle_timer_timers]) simp
    then have "\<exists>ts new. timers (snd (toggle_timer w timer_id)) = ts @ new \<and>
        list_all2 same_but_active (timers w) ts"
      by (intro exI [where x = "timers (snd (toggle_timer w timer_id))"] exI [where x = "[]"]) simp
    with POST_toggle show ?thesis by (simp add: handle_def)
  qed (use keep in \<open>simp_all add: handle_def\<close>)
qed

text \<open>
  C8. \<open>toggle_timer\<close> leaves the recipes table as it was; the timers table keeps its rows
  in place, each with every column but \<open>active\<close> as before, and a row with another id
  is not changed at all. No request changes a stored column other than \<open>active\<close>: after
  any request the recipes table is the old one followed by new rows, and the timers table
  is the old one, up to \<open>active\<close>, followed by new rows.
\<close>

theorem toggle_timer_frame:
  "recipes (snd (toggle_timer w timer_id)) = recipes w \<and>
   list_all2 (\<lambda>t t'. same_but_active t t' \<and> (t_id t \<noteq> int timer_id \<longrightarrow> t' = t))
     (timers w) (timers (snd (toggle_timer w timer_id))) \<and>
   (\<exists>rs. recipes (snd (handle L w rq)) = recipes w @ rs) \<and>
   (\<exists>ts new. timers (snd (handle L w rq)) = ts @ new \<and>
      list_all2 same_but_active (timers w) ts)"
  by (intro conjI toggle_timer_recipes toggle_timer_timers handle_recipes_kept
      handle_timers_kept)

theorem toggle_timer_frame_witness:
  "recipes (snd (toggle_timer pasta_world 1)) = recipes pasta_world \<and>
   timers (snd (toggle_timer pasta_world 1)) =
     [\<lparr>t_id = 1, t_recipe_id = Some 1, t_step_number = 2,
       t_step_description = Some ''boil'', t_duration_minutes = Some 5,
       t_active = Some True, t_created_at = Some 2000\<rparr>,
      \<lparr>t_id = 2, t_recipe_id = Some 1, t_step_number = 1,
       t_step_description = Some '''', t_duration_minutes = Some 10,
       t_active = Some True, t_created_at = Some 3000\<rparr>] \<and>
   list_all2 (\<lambda>t t'. same_but_active t t' \<and> (t_id t \<noteq> int 1 \<longrightarrow> t' = t))
     (timers pasta_world) (timers (snd (toggle_timer pasta_world 1)))"
proof -
  have "timers (snd (toggle_timer pasta_world 1)) =
     [\<lparr>t_id = 1, t_recipe_id = Some 1, t_step_number = 2,
       t_step_description = Some ''boil'', t_duration_minutes = Some 5,
       t_active = Some True, t_created_at = Some 2000\<rparr>,
      \<lparr>t_id = 2, t_recipe_id = Some 1, t_step_number = 1,
       t_step_description = Some '''', t_duration_minutes = Some 10,
       t_active = Some True, t_created_at = Some 3000\<rparr>]"
    by (simp add: toggle_timer_def get_db_connection_def update_timer_active_def
        pasta_world_def)
  with toggle_timer_frame [of pasta_world 1 some_lib "POST_toggle 1"]
  show ?thesis by simp
qed

subsection \<open>Creating a recipe and reading it back\<close>

lemma adapt_text_dict_get:
  "text_ok v \<Longrightarrow> CHR 0x00 \<notin> set d \<Longrightarrow> adapt_text (dict_get v d) = Inr (dict_get v d)"
  by (cases v) (simp_all add: text_ok_def dict_get_def adapt_text_def)

lemma integer_ok_cases:
  assumes "integer_ok v"
  obtains "v = Absent" | "v = Null" | n where "v = Val (PyInt n)" and "int4 n"
proof (cases v)
  case (Val x)
  with assms that show ?thesis
    by (cases x) (simp_all add: integer_ok_def)
qed (use that in simp_all)

lemma to_integer_dict_get:
  assumes "integer_ok v" and "int4 d"
  shows "to_integer (dict_get v (PyInt d)) = Inr (integer_given d v)"
  using assms(1)
  by (cases rule: integer_ok_cases)
     (simp_all add: dict_get_def to_integer_def integer_given_def assms(2))

lemma json_opt_integer_given:
  assumes "integer_ok v"
  shows "json_opt JInt (integer_given d v) = given number_json (PyInt d) v"
  using assms
  by (cases rule: integer_ok_cases)
     (simp_all add: json_opt_def integer_given_def given_def number_json_def)

lemma json_opt_dict_get: "json_opt f (dict_get v d) = given f d v"
  by (cases v) (simp_all add: json_opt_def dict_get_def given_def)

lemma store_inv_fresh_recipe_id:
  assumes "store_inv w"
  shows "recipes_id_seq w \<notin> set (map r_id (recipes w))"
  using assms by (auto simp: store_inv_def list_all_iff)

lemma store_inv_fresh_timer_id:
  assumes "store_inv w"
  shows "timers_id_seq w \<notin> set (map t_id (timers w))"
  using assms by (auto simp: store_inv_def list_all_iff)

lemma store_inv_no_timer_of_new_recipe:
  assumes "store_inv w"
  shows "filter (\<lambda>t. t_recipe_id t = Some (recipes_id_seq w)) (timers w) = []"
proof -
  have "t_recipe_id t \<noteq> Some (recipes_id_seq w)" if "t \<in> set (timers w)" for t
  proof
    assume eq: "t_recipe_id t = Some (recipes_id_seq w)"
    from assms that have "references (recipes w) (t_recipe_id t)"
      by (auto simp: store_inv_def list_all_iff)
    with eq have "recipes_id_seq w \<in> set (map r_id (recipes w))"
      by (simp add: references_def)
    with store_inv_fresh_recipe_id [OF assms] show False by simp
  qed
  then show ?thesis by (auto simp: filter_empty_conv)
qed

lemma find_new_row:
  assumes "f row = k" and "k \<notin> set (map f xs)"
  shows "find (\<lambda>x. f x = k) (xs @ [row]) = Some row"
  using assms by (induction xs) auto

lemma add_recipe_stores:
  assumes "connectable w" and "recipes_id_seq w \<le> 2147483647"
    and "recipes_id_seq w \<notin> set (map r_id (recipes w))"
    and "rp_title data = Val title" and "CHR 0x00 \<notin> set title"
    and "to_varchar 255 (Some title) = Inr (Some t)"
    and "text_ok (rp_ingredients data)" and "text_ok (rp_instructions data)"
    and "to_integer (dict_get (rp_cooking_time data) (PyInt 0)) = Inr d"
    and "to_integer (dict_get (rp_servings data) (PyInt 1)) = Inr e"
  shows "add_recipe L w data =
     (\<lparr>status = 201, body = JObj [(''message'', JStr ''Recept toegevoegd''),
                                  (''recipe_id'', JInt (recipes_id_seq w))]\<rparr>,
      w\<lparr>recipes_id_seq := recipes_id_seq w + 1,
        recipes := recipes w @
          [\<lparr>r_id = recipes_id_seq w, r_title = t,
            r_ingredients = dict_get (rp_ingredients data) '''',
            r_instructions = dict_get (rp_instructions data) '''',
            r_cooking_time = d, r_servings = e,
            r_created_at = Some (current_timestamp w)\<rparr>]\<rparr>)"
proof -
  have vals: "recipe_values (Some title) (dict_get (rp_ingredients data) '''')
      (dict_get (rp_instructions data) '''') (dict_get (rp_cooking_time data) (PyInt 0))
      (dict_get (rp_servings data) (PyInt 1)) =
      Inr (Some t, dict_get (rp_ingredients data) '''',
           dict_get (rp_instructions data) '''', d, e)"
  proof -
    have "adapt_text (Some title) = Inr (Some title)"
      using assms(5) by (simp add: adapt_text_def)
    moreover have "adapt_text (dict_get (rp_ingredients data) '''') =
        Inr (dict_get (rp_ingredients data) '''')"
      using assms(7) by (simp add: adapt_text_dict_get)
    moreover have "adapt_text (dict_get (rp_instructions data) '''') =
        Inr (dict_get (rp_instructions data) '''')"
      using assms(8) by (simp add: adapt_text_dict_get)
    ultimately show ?thesis
      using assms(6,9,10) by (simp only: recipe_values_Inr) blast
  qed
  have ins: "insert_recipe w (Some title) (dict_get (rp_ingredients data) '''')
      (dict_get (rp_instructions data) '''') (dict_get (rp_cooking_time data) (PyInt 0))
      (dict_get (rp_servings data) (PyInt 1)) =
      (Inr (recipes_id_seq w),
       w\<lparr>recipes_id_seq := recipes_id_seq w + 1,
         recipes := recipes w @
           [\<lparr>r_id = recipes_id_seq w, r_title = t,
             r_ingredients = dict_get (rp_ingredients data) '''',
             r_instructions = dict_get (rp_instructions data) '''',
             r_cooking_time = d, r_servings = e,
             r_created_at = Some (current_timestamp w)\<rparr>]\<rparr>)"
    using vals assms(2,3)
    by (simp only: insert_recipe_Inr) blast
  show ?thesis
    using assms(1,4)
    by (simp add: add_recipe_def get_db_connection_def subscript_def ins jsonify_def)
qed

lemma add_recipe_valid:
  assumes "store_inv w" and "connectable w" and "recipes_id_seq w \<le> 2147483647"
    and "valid_recipe_input data" and "rp_title data = Val title"
  shows "add_recipe L w data =
     (\<lparr>status = 201, body = JObj [(''message'', JStr ''Recept toegevoegd''),
                                  (''recipe_id'', JInt (recipes_id_seq w))]\<rparr>,
      w\<lparr>recipes_id_seq := recipes_id_seq w + 1,
        recipes := recipes w @
          [\<lparr>r_id = recipes_id_seq w, r_title = title,
            r_ingredients = dict_get (rp_ingredients data) '''',
            r_instructions = dict_get (rp_instructions data) '''',
            r_cooking_time = integer_given 0 (rp_cooking_time data),
            r_servings = integer_given 1 (rp_servings data),
            r_created_at = Some (current_timestamp w)\<rparr>]\<rparr>)"
proof -
  from assms(4,5) have title: "length title \<le> 255" "CHR 0x00 \<notin> set title"
    and oks: "text_ok (rp_ingredients data)" "text_ok (rp_instructions data)"
      "integer_ok (rp_cooking_time data)" "integer_ok (rp_servings data)"
    by (simp_all add: valid_recipe_input_def)
  have fits: "to_varchar 255 (Some title) = Inr (Some title)"
    using title by (simp add: to_varchar_def)
  show ?thesis
    by (rule add_recipe_stores [OF assms(2,3) store_inv_fresh_recipe_id [OF assms(1)] assms(5)
          title(2) fits oks(1,2)])
       (simp_all add: to_integer_dict_get oks int4_def)
qed

lemma get_new_recipe:
  assumes "store_inv w" and "connectable w" and "r_id row = recipes_id_seq w"
  shows "get_recipe L
     (w\<lparr>recipes_id_seq := recipes_id_seq w + 1, recipes := recipes w @ [row]\<rparr>)
     (nat (recipes_id_seq w)) =
     \<lparr>status = 200, body = JObj (recipe_json L row @ [(''timers'', JArr [])])\<rparr>"
proof -
  let ?i = "recipes_id_seq w"
  let ?w' = "w\<lparr>recipes_id_seq := ?i + 1, recipes := recipes w @ [row]\<rparr>"
  from assms(1) have pos: "0 < ?i"
    by (simp add: store_inv_def)
  then have i: "int (nat ?i) = ?i"
    by simp
  have sel: "select_recipe ?w' (nat ?i) = Some row"
  proof -
    have "find (\<lambda>r. r_id r = ?i) (recipes w @ [row]) = Some row"
      using store_inv_fresh_recipe_id [OF assms(1)] assms(3)
      by (intro find_new_row) simp_all
    then show ?thesis
      by (simp only: select_recipe_def i) simp
  qed
  have tim: "select_timers ?w' (nat ?i) = []"
    by (simp only: select_timers_def i)
       (simp add: store_inv_no_timer_of_new_recipe [OF assms(1)])
  have con: "connectable ?w'"
    using assms(2) by simp
  show ?thesis
    by (simp add: get_recipe_found [OF con sel] tim)
qed

text \<open>
  C1, as stated, fails: a title of 255 letters and a blank is a title that is present, the
  request is answered 201, and \<open>get_recipe\<close> on the returned id answers with the 255
  letters only. The column is VARCHAR(255), and an assignment cuts off blanks beyond its
  length.
\<close>

theorem long_title_counterexample:
  "rp_title long_title_input = Val (replicate 255 (CHR ''a'') @ '' '') \<and>
   fst (add_recipe some_lib fresh_world long_title_input) =
     \<lparr>status = 201, body = JObj [(''message'', JStr ''Recept toegevoegd''),
                                 (''recipe_id'', JInt 1)]\<rparr> \<and>
   lookup (body (get_recipe some_lib (snd (add_recipe some_lib fresh_world long_title_input)) 1))
     ''title'' = Some (JStr (replicate 255 (CHR ''a''))) \<and>
   replicate 255 (CHR ''a'') \<noteq> replicate 255 (CHR ''a'') @ '' ''"
proof -
  let ?row = "\<lparr>r_id = 1, r_title = replicate 255 (CHR ''a''), r_ingredients = Some '''',
      r_instructions = Some '''', r_cooking_time = Some 0, r_servings = Some 1,
      r_created_at = Some 1000\<rparr>"
  have title: "rp_title long_title_input = Val (replicate 255 (CHR ''a'') @ '' '')"
    by (simp add: long_title_input_def)
  have cut: "to_varchar 255 (Some (replicate 255 (CHR ''a'') @ '' '')) =
      Inr (Some (replicate 255 (CHR ''a'')))"
    by (simp add: to_varchar_def)
  have add: "add_recipe some_lib fresh_world long_title_input =
     (\<lparr>status = 201, body = JObj [(''message'', JStr ''Recept toegevoegd''),
                                  (''recipe_id'', JInt 1)]\<rparr>,
      fresh_world\<lparr>recipes_id_seq := recipes_id_seq fresh_world + 1,
        recipes := recipes fresh_world @ [?row]\<rparr>)"
    using add_recipe_stores [of fresh_world long_title_input
        "replicate 255 (CHR ''a'') @ '' ''" "replicate 255 (CHR ''a'')" "Some 0" "Some 1"
        some_lib, OF _ _ _ title _ cut]
    by (simp add: fresh_world_def long_title_input_def text_ok_def dict_get_def
        to_integer_def int4_def)
  have get: "get_recipe some_lib
      (fresh_world\<lparr>recipes_id_seq := recipes_id_seq fresh_world + 1,
         recipes := recipes fresh_world @ [?row]\<rparr>) (nat (recipes_id_seq fresh_world)) =
      \<lparr>status = 200, body = JObj (recipe_json some_lib ?row @ [(''timers'', JArr [])])\<rparr>"
    by (rule get_new_recipe [OF store_inv_fresh]) (simp_all add: fresh_world_def)
  have one: "nat (recipes_id_seq fresh_world) = 1"
    by (simp add: fresh_world_def)
  have "lookup (body (get_recipe some_lib (snd (add_recipe some_lib fresh_world long_title_input)) 1))
     ''title'' = Some (JStr (replicate 255 (CHR ''a'')))"
    using get by (simp add: add one lookup_def recipe_json_def)
  moreover have "replicate 255 (CHR ''a'') \<noteq> replicate 255 (CHR ''a'') @ '' ''"
    by simp
  ultimately show ?thesis
    using title by (simp add: add)
qed

text \<open>
  C1, amended. For a recipe input whose title is a text of at most 255 characters (with
  texts without NUL, with cooking_time and servings integers that fit INTEGER, and with any
  optional field omitted or null), sent to a reachable store whose id sequence is not
  exhausted: \<open>add_recipe\<close> answers 201 with a recipe id, and \<open>get_recipe\<close> on that id answers
  200 with that id, the title, and for ingredients, instructions, cooking_time and servings
  the input value, the default ('', '', 0, 1) for an omitted field, and with an empty
  timers array.
\<close>

theorem add_recipe_then_get_recipe:
  assumes "store_inv w" and "connectable w" and "recipes_id_seq w \<le> 2147483647"
    and "valid_recipe_input data"
  shows "\<exists>recipe_id title. rp_title data = Val title \<and>
     fst (add_recipe L w data) =
       \<lparr>status = 201, body = JObj [(''message'', JStr ''Recept toegevoegd''),
                                   (''recipe_id'', JInt (int recipe_id))]\<rparr> \<and>
     status (get_recipe L (snd (add_recipe L w data)) recipe_id) = 200 \<and>
     lookup (body (get_recipe L (snd (add_recipe L w data)) recipe_id)) ''id'' =
       Some (JInt (int recipe_id)) \<and>
     lookup (body (get_recipe L (snd (add_recipe L w data)) recipe_id)) ''title'' =
       Some (JStr title) \<and>
     lookup (body (get_recipe L (snd (add_recipe L w data)) recipe_id)) ''ingredients'' =
       Some (given JStr '''' (rp_ingredients data)) \<and>
     lookup (body (get_recipe L (snd (add_recipe L w data)) recipe_id)) ''instructions'' =
       Some (given JStr '''' (rp_instructions data)) \<and>
     lookup (body (get_recipe L (snd (add_recipe L w data)) recipe_id)) ''cooking_time'' =
       Some (given number_json (PyInt 0) (rp_cooking_time data)) \<and>
     lookup (body (get_recipe L (snd (add_recipe L w data)) recipe_id)) ''servings'' =
       Some (given number_json (PyInt 1) (rp_servings data)) \<and>
     lookup (body (get_recipe L (snd (add_recipe L w data)) recipe_id)) ''timers'' =
       Some (JArr [])"
proof -
  from assms(4) obtain title where title: "rp_title data = Val title"
    by (cases "rp_title data") (simp_all add: valid_recipe_input_def)
  from assms(4) have oks: "integer_ok (rp_cooking_time data)" "integer_ok (rp_servings data)"
    by (simp_all add: valid_recipe_input_def)
  let ?i = "recipes_id_seq w"
  let ?row = "\<lparr>r_id = ?i, r_title = title,
            r_ingredients = dict_get (rp_ingredients data) '''',
            r_instructions = dict_get (rp_instructions data) '''',
            r_cooking_time = integer_given 0 (rp_cooking_time data),
            r_servings = integer_given 1 (rp_servings data),
            r_created_at = Some (current_timestamp w)\<rparr>"
  let ?w' = "w\<lparr>recipes_id_seq := ?i + 1, recipes := recipes w @ [?row]\<rparr>"
  have add: "add_recipe L w data =
     (\<lparr>status = 201, body = JObj [(''message'', JStr ''Recept toegevoegd''),
                                  (''recipe_id'', JInt ?i)]\<rparr>, ?w')"
    by (rule add_recipe_valid [OF assms title])
  from assms(1) have pos: "0 < ?i"
    by (simp add: store_inv_def)
  then have i: "int (nat ?i) = ?i"
    by simp
  have get: "get_recipe L ?w' (nat ?i) =
      \<lparr>status = 200, body = JObj (recipe_json L ?row @ [(''timers'', JArr [])])\<rparr>"
    by (rule get_new_recipe [OF assms(1,2)]) simp
  have fields:
    "lookup (JObj (recipe_json L ?row @ [(''timers'', JArr [])])) ''id'' = Some (JInt ?i)"
    "lookup (JObj (recipe_json L ?row @ [(''timers'', JArr [])])) ''title'' = Some (JStr title)"
    "lookup (JObj (recipe_json L ?row @ [(''timers'', JArr [])])) ''ingredients'' =
       Some (given JStr '''' (rp_ingredients data))"
    "lookup (JObj (recipe_json L ?row @ [(''timers'', JArr [])])) ''instructions'' =
       Some (given JStr '''' (rp_instructions data))"
    "lookup (JObj (recipe_json L ?row @ [(''timers'', JArr [])])) ''cooking_time'' =
       Some (given number_json (PyInt 0) (rp_cooking_time data))"
    "lookup (JObj (recipe_json L ?row @ [(''timers'', JArr [])])) ''servings'' =
       Some (given number_json (PyInt 1) (rp_servings data))"
    "lookup (JObj (recipe_json L ?row @ [(''timers'', JArr [])])) ''timers'' = Some (JArr [])"
    by (simp_all add: lookup_def recipe_json_def json_opt_dict_get
        json_opt_integer_given [OF oks(1)] json_opt_integer_given [OF oks(2)])
  show ?thesis
    apply (rule exI [where x = "nat ?i"])
    apply (rule exI [where x = title])
    apply (simp only: add fst_conv snd_conv get i)
    apply (simp add: title fields)
    done
qed

theorem add_recipe_then_get_recipe_witness:
  "fst (add_recipe some_lib fresh_world pasta_input) =
     \<lparr>status = 201, body = JObj [(''message'', JStr ''Recept toegevoegd''),
                                 (''recipe_id'', JInt 1)]\<rparr> \<and>
   status (get_recipe some_lib (snd (add_recipe some_lib fresh_world pasta_input)) 1) = 200 \<and>
   lookup (body (get_recipe some_lib (snd (add_recipe some_lib fresh_world pasta_input)) 1))
     ''title'' = Some (JStr ''Pasta'') \<and>
   lookup (body (get_recipe some_lib (snd (add_recipe some_lib fresh_world pasta_input)) 1))
     ''ingredients'' = Some (JStr '''') \<and>
   lookup (body (get_recipe some_lib (snd (add_recipe some_lib fresh_world pasta_input)) 1))
     ''cooking_time'' = Some (JInt 20) \<and>
   lookup (body (get_recipe some_lib (snd (add_recipe some_lib fresh_world pasta_input)) 1))
     ''servings'' = Some (JInt 2) \<and>
   lookup (body (get_recipe some_lib (snd (add_recipe some_lib fresh_world pasta_input)) 1))
     ''timers'' = Some (JArr [])"
proof -
  have con: "connectable fresh_world" and seq: "recipes_id_seq fresh_world \<le> 2147483647"
    by (simp_all add: fresh_world_def)
  have valid: "valid_recipe_input pasta_input"
    by (simp add: valid_recipe_input_def pasta_input_def text_ok_def integer_ok_def int4_def)
  from add_recipe_then_get_recipe [OF store_inv_fresh con seq valid, of some_lib]
  obtain recipe_id title where
    t: "rp_title pasta_input = Val title" and
    a: "fst (add_recipe some_lib fresh_world pasta_input) =
       \<lparr>status = 201, body = JObj [(''message'', JStr ''Recept toegevoegd''),
                                   (''recipe_id'', JInt (int recipe_id))]\<rparr>" and
    g: "status (get_recipe some_lib (snd (add_recipe some_lib fresh_world pasta_input))
          recipe_id) = 200"
       "lookup (body (get_recipe some_lib (snd (add_recipe some_lib fresh_world pasta_input))
          recipe_id)) ''title'' = Some (JStr title)"
       "lookup (body (get_recipe some_lib (snd (add_recipe some_lib fresh_world pasta_input))
          recipe_id)) ''ingredients'' = Some (given JStr '''' (rp_ingredients pasta_input))"
       "lookup (body (get_recipe some_lib (snd (add_recipe some_lib fresh_world pasta_input))
          recipe_id)) ''cooking_time'' =
          Some (given number_json (PyInt 0) (rp_cooking_time pasta_input))"
       "lookup (body (get_recipe some_lib (snd (add_recipe some_lib fresh_world pasta_input))
          recipe_id)) ''servings'' =
          Some (given number_json (PyInt 1) (rp_servings pasta_input))"
       "lookup (body (get_recipe some_lib (snd (add_recipe some_lib fresh_world pasta_input))
          recipe_id)) ''timers'' = Some (JArr [])"
    by blast
  have "title = ''Pasta''"
    using t by (simp add: pasta_input_def)
  moreover have "fst (add_recipe some_lib fresh_world pasta_input) =
       \<lparr>status = 201, body = JObj [(''message'', JStr ''Recept toegevoegd''),
                                   (''recipe_id'', JInt 1)]\<rparr>"
    using add_recipe_valid [OF store_inv_fresh con seq valid, of "''Pasta''" some_lib]
    by (simp add: pasta_input_def fresh_world_def)
  with a have "recipe_id = 1"
    by simp
  ultimately show ?thesis
    using a g by (simp add: given_def number_json_def pasta_input_def)
qed
subsection \<open>Creating a timer and reading its recipe\<close>

lemma store_inv_recipe_id_int4:
  assumes "store_inv w" and "r \<in> set (map r_id (recipes w))"
  shows "0 < r" and "int4 r"
  using assms by (auto simp: store_inv_def list_all_iff int4_def)

lemma find_present:
  "k \<in> set (map f xs) \<Longrightarrow> \<exists>x. find (\<lambda>x. f x = k) xs = Some x"
  by (induction xs) auto

lemma valid_timer_input_cases:
  assumes "valid_timer_input w data"
  obtains r n d where "tp_recipe_id data = Val (PyInt r)" and "tp_step_number data = Val (PyInt n)"
    and "tp_duration_minutes data = Val (PyInt d)" and "r \<in> set (map r_id (recipes w))"
    and "int4 n" and "int4 d" and "text_ok (tp_step_description data)"
  using assms unfolding valid_timer_input_def
  by (auto split: field.splits number.splits)

lemma add_timer_valid:
  assumes "store_inv w" and "connectable w" and "timers_id_seq w \<le> 2147483647"
    and "valid_timer_input w data"
    and "tp_recipe_id data = Val (PyInt r)" and "tp_step_number data = Val (PyInt n)"
    and "tp_duration_minutes data = Val (PyInt d)"
  shows "add_timer L w data =
     (\<lparr>status = 201, body = JObj [(''message'', JStr ''Timer toegevoegd''),
                                  (''timer_id'', JInt (timers_id_seq w))]\<rparr>,
      w\<lparr>timers_id_seq := timers_id_seq w + 1,
        timers := timers w @
          [\<lparr>t_id = timers_id_seq w, t_recipe_id = Some r, t_step_number = n,
            t_step_description = dict_get (tp_step_description data) '''',
            t_duration_minutes = Some d, t_active = Some False,
            t_created_at = Some (current_timestamp w)\<rparr>]\<rparr>)"
proof -
  from assms(4-7) have r: "r \<in> set (map r_id (recipes w))" and n: "int4 n" and d: "int4 d"
    and desc: "text_ok (tp_step_description data)"
    by (auto elim: valid_timer_input_cases)
  have vals: "timer_values (Some (PyInt r)) (Some (PyInt n))
      (dict_get (tp_step_description data) '''') (Some (PyInt d)) =
      Inr (Some r, Some n, dict_get (tp_step_description data) '''', Some d)"
    using n d desc store_inv_recipe_id_int4(2) [OF assms(1) r]
    by (simp add: timer_values_Inr adapt_text_dict_get to_integer_def)
  have ref: "references (recipes w) (Some r)"
    using r by (simp add: references_def)
  have ins: "insert_timer w (Some (PyInt r)) (Some (PyInt n))
      (dict_get (tp_step_description data) '''') (Some (PyInt d)) =
      (Inr (timers_id_seq w),
       w\<lparr>timers_id_seq := timers_id_seq w + 1,
         timers := timers w @
           [\<lparr>t_id = timers_id_seq w, t_recipe_id = Some r, t_step_number = n,
             t_step_description = dict_get (tp_step_description data) '''',
             t_duration_minutes = Some d, t_active = Some False,
             t_created_at = Some (current_timestamp w)\<rparr>]\<rparr>)"
    using vals ref assms(3) store_inv_fresh_timer_id [OF assms(1)]
    by (simp only: insert_timer_Inr) blast
  show ?thesis
    using assms(2,5-7)
    by (simp add: add_timer_def get_db_connection_def subscript_def ins jsonify_def)
qed

text \<open>
  C7. For a timer input the store can hold, whose recipe_id is that of a stored recipe,
  sent to a reachable store whose timer id sequence is not exhausted: \<open>add_timer\<close> answers
  201 with a timer id, and \<open>get_recipe\<close> on the recipe id then answers 200 with a timers
  array that holds the new timer (its id, step_number, description or '', duration_minutes
  and active = false) and whose timers are in ascending order of step_number.
\<close>

theorem add_timer_then_get_recipe:
  assumes "store_inv w" and "connectable w" and "timers_id_seq w \<le> 2147483647"
    and "valid_timer_input w data"
  shows "\<exists>timer_id recipe_id n d.
     tp_recipe_id data = Val (PyInt (int recipe_id)) \<and>
     tp_step_number data = Val (PyInt n) \<and> tp_duration_minutes data = Val (PyInt d) \<and>
     fst (add_timer L w data) =
       \<lparr>status = 201, body = JObj [(''message'', JStr ''Timer toegevoegd''),
                                   (''timer_id'', JInt timer_id)]\<rparr> \<and>
     status (get_recipe L (snd (add_timer L w data)) recipe_id) = 200 \<and>
     lookup (body (get_recipe L (snd (add_timer L w data)) recipe_id)) ''timers'' =
       Some (JArr (map timer_json (select_timers (snd (add_timer L w data)) recipe_id))) \<and>
     JObj [(''id'', JInt timer_id), (''step_number'', JInt n),
           (''step_description'', given JStr '''' (tp_step_description data)),
           (''duration_minutes'', JInt d), (''active'', JBool False)]
       \<in> set (map timer_json (select_timers (snd (add_timer L w data)) recipe_id)) \<and>
     sorted (map t_step_number (select_timers (snd (add_timer L w data)) recipe_id))"
proof -
  from assms(4) obtain r n d where r: "tp_recipe_id data = Val (PyInt r)"
    and n: "tp_step_number data = Val (PyInt n)" and d: "tp_duration_minutes data = Val (PyInt d)"
    and rin: "r \<in> set (map r_id (recipes w))"
    by (rule valid_timer_input_cases)
  let ?i = "timers_id_seq w"
  let ?row = "\<lparr>t_id = ?i, t_recipe_id = Some r, t_step_number = n,
            t_step_description = dict_get (tp_step_description data) '''',
            t_duration_minutes = Some d, t_active = Some False,
            t_created_at = Some (current_timestamp w)\<rparr>"
  let ?w' = "w\<lparr>timers_id_seq := ?i + 1, timers := timers w @ [?row]\<rparr>"
  have add: "add_timer L w data =
     (\<lparr>status = 201, body = JObj [(''message'', JStr ''Timer toegevoegd''),
                                  (''timer_id'', JInt ?i)]\<rparr>, ?w')"
    by (rule add_timer_valid [OF assms r n d])
  have rr: "int (nat r) = r"
    using store_inv_recipe_id_int4(1) [OF assms(1) rin] by simp
  have con: "connectable ?w'"
    using assms(2) by simp
  from find_present [OF rin] obtain recipe where
    "find (\<lambda>x. r_id x = r) (recipes w) = Some recipe"
    by blast
  then have sel: "select_recipe ?w' (nat r) = Some recipe"
    by (simp only: select_recipe_def rr) simp
  have get: "get_recipe L ?w' (nat r) =
      \<lparr>status = 200,
       body = JObj (recipe_json L recipe @
                    [(''timers'', JArr (map timer_json (select_timers ?w' (nat r))))])\<rparr>"
    by (rule get_recipe_found [OF con sel])
  have look: "lookup (body (get_recipe L ?w' (nat r))) ''timers'' =
      Some (JArr (map timer_json (select_timers ?w' (nat r))))"
    using con sel by (simp add: lookup_timers_get_recipe)
  have rowin: "?row \<in> set (select_timers ?w' (nat r))"
    by (simp only: select_timers_def rr) simp
  have "timer_json ?row \<in> set (map timer_json (select_timers ?w' (nat r)))"
    unfolding set_map using rowin by (rule imageI)
  moreover have "timer_json ?row =
      JObj [(''id'', JInt ?i), (''step_number'', JInt n),
            (''step_description'', given JStr '''' (tp_step_description data)),
            (''duration_minutes'', JInt d), (''active'', JBool False)]"
    by (simp add: timer_json_def json_opt_dict_get) (simp add: json_opt_def)
  ultimately have mem: "JObj [(''id'', JInt ?i), (''step_number'', JInt n),
            (''step_description'', given JStr '''' (tp_step_description data)),
            (''duration_minutes'', JInt d), (''active'', JBool False)]
       \<in> set (map timer_json (select_timers ?w' (nat r)))"
    by simp
  have srt: "sorted (map t_step_number (select_timers ?w' (nat r)))"
    by (simp only: select_timers_def sorted_sort_key)
  show ?thesis
    apply (rule exI [where x = ?i])
    apply (rule exI [where x = "nat r"])
    apply (rule exI [where x = n])
    apply (rule exI [where x = d])
    apply (simp only: add fst_conv snd_conv rr)
    apply (intro conjI r n d refl look mem srt)
    apply (simp add: get)
    done
qed

theorem add_timer_then_get_recipe_witness:
  "fst (add_timer some_lib (snd (add_recipe some_lib fresh_world pasta_input)) boil_input) =
     \<lparr>status = 201, body = JObj [(''message'', JStr ''Timer toegevoegd''),
                                 (''timer_id'', JInt 1)]\<rparr> \<and>
   lookup (body (get_recipe some_lib
       (snd (add_timer some_lib (snd (add_recipe some_lib fresh_world pasta_input)) boil_input))
       1)) ''timers'' =
     Some (JArr [JObj [(''id'', JInt 1), (''step_number'', JInt 1),
                       (''step_description'', JStr ''''), (''duration_minutes'', JInt 5),
                       (''active'', JBool False)]])"
proof -
  let ?w = "snd (add_recipe some_lib fresh_world pasta_input)"
  have w: "?w = fresh_world\<lparr>recipes_id_seq := 2,
      recipes := [\<lparr>r_id = 1, r_title = ''Pasta'', r_ingredients = Some '''',
                   r_instructions = Some '''', r_cooking_time = Some 20, r_servings = Some 2,
                   r_created_at = Some 1000\<rparr>]\<rparr>"
    using add_recipe_valid [OF store_inv_fresh, of pasta_input "''Pasta''" some_lib]
    by (simp add: fresh_world_def pasta_input_def valid_recipe_input_def text_ok_def
        integer_ok_def int4_def dict_get_def integer_given_def)
  have inv: "store_inv ?w"
    using store_inv_handle [OF store_inv_fresh, of some_lib "POST_recipes pasta_input"]
    by (simp add: handle_def)
  have con: "connectable ?w" and seq: "timers_id_seq ?w \<le> 2147483647"
    unfolding w by (simp_all add: fresh_world_def)
  have valid: "valid_timer_input ?w boil_input"
    unfolding w by (simp add: valid_timer_input_def boil_input_def text_ok_def int4_def)
  have ts: "map timer_json (select_timers (snd (add_timer some_lib ?w boil_input)) 1) =
      [JObj [(''id'', JInt 1), (''step_number'', JInt 1),
             (''step_description'', JStr ''''), (''duration_minutes'', JInt 5),
             (''active'', JBool False)]]"
    using add_timer_valid [OF inv con seq valid, of 1 1 5 some_lib]
    unfolding w
    by (simp add: boil_input_def fresh_world_def select_timers_def timer_json_def
        json_opt_def dict_get_def)
  from add_timer_then_get_recipe [OF inv con seq valid, of some_lib]
  obtain timer_id recipe_id n d where
    r: "tp_recipe_id boil_input = Val (PyInt (int recipe_id))" and
    a: "fst (add_timer some_lib ?w boil_input) =
       \<lparr>status = 201, body = JObj [(''message'', JStr ''Timer toegevoegd''),
                                   (''timer_id'', JInt timer_id)]\<rparr>" and
    l: "lookup (body (get_recipe some_lib (snd (add_timer some_lib ?w boil_input)) recipe_id))
         ''timers'' =
        Some (JArr (map timer_json
          (select_timers (snd (add_timer some_lib ?w boil_input)) recipe_id)))"
    by blast
  from r have "recipe_id = 1"
    by (simp add: boil_input_def)
  moreover have "timer_id = 1"
    using a add_timer_valid [OF inv con seq valid, of 1 1 5 some_lib]
    unfolding w
    by (simp add: boil_input_def fresh_world_def)
  ultimately show ?thesis
    using a l ts by simp
qed

subsection \<open>The foreign key of a timer\<close>

text \<open>
  C5, as stated, fails: a request whose recipe_id is null creates a timer that refers to
  no recipe. The column \<open>recipe_id\<close> may be NULL, and a foreign key is not checked for NULL.
\<close>

theorem orphan_timer_counterexample:
  "status (fst (add_timer some_lib fresh_world orphan_input)) = 201 \<and>
   map t_recipe_id (timers (snd (add_timer some_lib fresh_world orphan_input))) = [None] \<and>
   recipes (snd (add_timer some_lib fresh_world orphan_input)) = []"
proof -
  have vals: "timer_values None (Some (PyInt 1)) (Some '''') (Some (PyInt 5)) =
      Inr (None, Some 1, Some '''', Some 5)"
    by (simp add: timer_values_Inr adapt_text_def to_integer_def int4_def)
  have "insert_timer fresh_world None (Some (PyInt 1)) (Some '''') (Some (PyInt 5)) =
      (Inr 1, fresh_world\<lparr>timers_id_seq := 2,
         timers := [\<lparr>t_id = 1, t_recipe_id = None, t_step_number = 1,
                     t_step_description = Some '''', t_duration_minutes = Some 5,
                     t_active = Some False, t_created_at = Some 1000\<rparr>]\<rparr>)"
    by (simp add: insert_timer_Inr vals references_def) (simp add: fresh_world_def)
  then show ?thesis
    by (simp add: add_timer_def orphan_input_def get_db_connection_def subscript_def
        dict_get_def jsonify_def) (simp add: fresh_world_def)
qed

text \<open>
  C5, amended. For a request to create a timer whose recipe_id is an integer: when no
  recipe has that id, the answer is 500 with an error body and the tables stay as they
  were, so no timer row is left behind; and when the answer is 201, a recipe with that id
  exists at that time and the one new timer row carries that id.
\<close>

theorem add_timer_foreign_key:
  assumes "tp_recipe_id data = Val (PyInt r)"
  shows "(r \<notin> set (map r_id (recipes w)) \<longrightarrow>
            status (fst (add_timer L w data)) = 500 \<and>
            keys (body (fst (add_timer L w data))) = [''error''] \<and>
            timers (snd (add_timer L w data)) = timers w \<and>
            recipes (snd (add_timer L w data)) = recipes w) \<and>
         (status (fst (add_timer L w data)) = 201 \<longrightarrow>
            r \<in> set (map r_id (recipes w)) \<and>
            recipes (snd (add_timer L w data)) = recipes w \<and>
            (\<exists>row. timers (snd (add_timer L w data)) = timers w @ [row] \<and>
                   t_recipe_id row = Some r))"
proof -
  let ?b = "case tp_step_number data of Val n \<Rightarrow> Some n | _ \<Rightarrow> None"
  let ?c = "dict_get (tp_step_description data) ''''"
  let ?d = "case tp_duration_minutes data of Val d \<Rightarrow> Some d | _ \<Rightarrow> None"
  from add_timer_result [of data w L] assms
  consider (created) i where
      "insert_timer w (Some (PyInt r)) ?b ?c ?d = (Inr i, snd (add_timer L w data))"
      "status (fst (add_timer L w data)) = 201"
    | (failed) "status (fst (add_timer L w data)) = 500"
      "keys (body (fst (add_timer L w data))) = [''error'']"
      "recipes (snd (add_timer L w data)) = recipes w"
      "timers (snd (add_timer L w data)) = timers w"
    by auto
  then show ?thesis
  proof cases
    case created
    from insert_timer_created [OF created(1)] obtain row where
      ref: "references (recipes w) (t_recipe_id row)" and
      rid: "to_integer (Some (PyInt r)) = Inr (t_recipe_id row)" and
      w': "snd (add_timer L w data) =
        w\<lparr>timers_id_seq := timers_id_seq w + 1, timers := timers w @ [row]\<rparr>"
      by blast
    from rid have row: "t_recipe_id row = Some r"
      by (simp add: to_integer_Inr)
    with ref have rin: "r \<in> set (map r_id (recipes w))"
      by (simp add: references_def)
    have "recipes (snd (add_timer L w data)) = recipes w"
      by (simp add: w')
    moreover have "\<exists>row. timers (snd (add_timer L w data)) = timers w @ [row] \<and>
        t_recipe_id row = Some r"
      using row by (simp add: w')
    ultimately show ?thesis
      using rin created(2) by simp
  next
    case failed
    then show ?thesis by simp
  qed
qed

theorem add_timer_foreign_key_witness:
  "status (fst (add_timer some_lib fresh_world boil_input)) = 500 \<and>
   timers (snd (add_timer some_lib fresh_world boil_input)) = [] \<and>
   status (fst (add_timer some_lib pasta_world boil_input)) = 201 \<and>
   map t_recipe_id (timers (snd (add_timer some_lib pasta_world boil_input))) =
     [Some 1, Some 1, Some 1]"
proof -
  have r: "tp_recipe_id boil_input = Val (PyInt 1)"
    by (simp add: boil_input_def)
  have absent: "1 \<notin> set (map r_id (recipes fresh_world))"
    by (simp add: fresh_world_def)
  note inv = store_inv_pasta_world
  have valid: "valid_timer_input pasta_world boil_input"
    by (simp add: valid_timer_input_def pasta_world_def boil_input_def text_ok_def int4_def)
  have created: "status (fst (add_timer some_lib pasta_world boil_input)) = 201"
    using add_timer_valid [OF inv _ _ valid, of 1 1 5 some_lib]
    by (simp add: boil_input_def pasta_world_def)
  have old: "map t_recipe_id (timers pasta_world) = [Some 1, Some 1]"
    by (simp add: pasta_world_def)
  from add_timer_foreign_key [OF r, of fresh_world some_lib] absent
    add_timer_foreign_key [OF r, of pasta_world some_lib] created old
  show ?thesis
    by (auto simp: fresh_world_def)
qed


subsection \<open>The numbers a creation stores\<close>

lemma numeric_to_integer_nearest: "nearest_integer (numeric_to_integer m k) m k"
proof -
  define P :: int where "P = 10 ^ k"
  have P: "0 < P"
    by (simp add: P_def)
  show ?thesis
  proof (cases "0 \<le> m")
    case True
    define q where "q = (2 * m + P) div (2 * P)"
    define r where "r = (2 * m + P) mod (2 * P)"
    define X where "X = q * P"
    have "2 * P * q + r = 2 * m + P"
      unfolding q_def r_def by (rule mult_div_mod_eq)
    then have e: "2 * X + r = 2 * m + P"
      by (simp add: X_def algebra_simps)
    have r: "0 \<le> r" "r < 2 * P"
      using P by (simp_all add: r_def)
    have q: "0 \<le> q"
      using True P unfolding q_def by (intro pos_imp_zdiv_nonneg_iff [THEN iffD2]) simp_all
    have n: "numeric_to_integer m k = q"
      using True by (simp add: numeric_to_integer_def q_def P_def)
    have d: "2 * (X - m) = P - r"
      using e by arith
    have "2 * \<bar>X - m\<bar> < P \<or> (2 * \<bar>X - m\<bar> = P \<and> \<bar>m\<bar> < X)"
    proof (cases "r = 0")
      case True
      with d P \<open>0 \<le> m\<close> have "2 * \<bar>X - m\<bar> = P" "\<bar>m\<bar> < X"
        by arith+
      then show ?thesis by simp
    next
      case False
      with d r have "2 * \<bar>X - m\<bar> < P"
        by arith
      then show ?thesis by simp
    qed
    then show ?thesis
      using q by (simp add: nearest_integer_def n X_def P_def [symmetric])
  next
    case False
    define q where "q = (2 * (- m) + P) div (2 * P)"
    define r where "r = (2 * (- m) + P) mod (2 * P)"
    define X where "X = q * P"
    have "2 * P * q + r = 2 * (- m) + P"
      unfolding q_def r_def by (rule mult_div_mod_eq)
    then have e: "2 * X + r = 2 * (- m) + P"
      by (simp add: X_def algebra_simps)
    have r: "0 \<le> r" "r < 2 * P"
      using P by (simp_all add: r_def)
    have q: "0 \<le> q"
      using False P unfolding q_def by (intro pos_imp_zdiv_nonneg_iff [THEN iffD2]) simp_all
    have n: "numeric_to_integer m k = - q"
      using False by (simp add: numeric_to_integer_def q_def P_def)
    have d: "2 * (- X - m) = r - P"
      using e by arith
    have "2 * \<bar>- X - m\<bar> < P \<or> (2 * \<bar>- X - m\<bar> = P \<and> \<bar>m\<bar> < X)"
    proof (cases "r = 0")
      case True
      with d P \<open>\<not> 0 \<le> m\<close> have "2 * \<bar>- X - m\<bar> = P" "\<bar>m\<bar> < X"
        by arith+
      then show ?thesis by simp
    next
      case False
      with d r have "2 * \<bar>- X - m\<bar> < P"
        by arith
      then show ?thesis by simp
    qed
    then show ?thesis
      using q by (simp add: nearest_integer_def n X_def P_def [symmetric])
  qed
qed

text \<open>There is one nearest integer.\<close>

lemma nearest_integer_step:
  assumes "nearest_integer n m k" and "nearest_integer (n + 1) m k"
  shows False
proof -
  define P :: int where "P = 10 ^ k"
  have P: "0 < P"
    by (simp add: P_def)
  define X where "X = n * P"
  have Y: "(n + 1) * P = X + P"
    by (simp add: X_def algebra_simps)
  from assms have a: "2 * \<bar>X - m\<bar> < P \<or> (2 * \<bar>X - m\<bar> = P \<and> \<bar>m\<bar> < \<bar>n\<bar> * P)"
    and b: "2 * \<bar>X + P - m\<bar> < P \<or> (2 * \<bar>X + P - m\<bar> = P \<and> \<bar>m\<bar> < \<bar>n + 1\<bar> * P)"
    by (simp_all add: nearest_integer_def X_def P_def [symmetric] Y [unfolded X_def])
  from a have a': "- P \<le> 2 * (X - m)"
    by (auto simp: abs_if split: if_splits)
  from b have b': "2 * (X + P - m) \<le> P"
    by (auto simp: abs_if split: if_splits)
  from a' b' have m: "2 * m = 2 * X + P"
    by simp
  have "\<not> 2 * \<bar>X - m\<bar> < P"
    using m P by (simp add: abs_if)
  with a have t1: "\<bar>m\<bar> < \<bar>n\<bar> * P"
    by simp
  have "\<not> 2 * \<bar>X + P - m\<bar> < P"
    using m P by (simp add: abs_if)
  with b have t2: "\<bar>m\<bar> < \<bar>n + 1\<bar> * P"
    by simp
  show False
  proof (cases "0 \<le> n")
    case True
    then have "0 \<le> X"
      using P by (simp add: X_def)
    moreover from True have "\<bar>n\<bar> * P = X"
      by (simp add: X_def)
    ultimately show False
      using t1 m P by (simp add: abs_if split: if_splits)
  next
    case False
    then have "n + 1 \<le> 0"
      by simp
    then have "\<bar>n + 1\<bar> = - (n + 1)"
      by simp
    then have "\<bar>n + 1\<bar> * P = - (X + P)"
      by (simp only: Y [symmetric])
    moreover have "X + P \<le> 0"
      using \<open>n + 1 \<le> 0\<close> P unfolding Y [symmetric] by (simp add: mult_le_0_iff)
    ultimately show False
      using t2 m P by (simp add: abs_if split: if_splits)
  qed
qed

lemma nearest_integer_unique:
  assumes "nearest_integer n m k" and "nearest_integer n' m k"
  shows "n = n'"
proof -
  define P :: int where "P = 10 ^ k"
  have P: "0 < P"
    by (simp add: P_def)
  define X where "X = n * P"
  define Y where "Y = n' * P"
  from assms have a: "2 * \<bar>X - m\<bar> \<le> P" and b: "2 * \<bar>Y - m\<bar> \<le> P"
    by (auto simp: nearest_integer_def X_def Y_def P_def)
  have "\<bar>X - Y\<bar> \<le> P"
    using a b by (simp add: abs_if split: if_splits)
  moreover have "\<bar>X - Y\<bar> = \<bar>n - n'\<bar> * P"
    using P by (simp add: X_def Y_def left_diff_distrib [symmetric] abs_mult)
  ultimately have "\<bar>n - n'\<bar> * P \<le> 1 * P"
    by simp
  then have near: "\<bar>n - n'\<bar> \<le> 1"
    using P by (simp only: mult_le_cancel_right)
  show ?thesis
  proof (rule ccontr)
    assume "n \<noteq> n'"
    with near consider "n' = n + 1" | "n = n' + 1"
      by (auto simp: abs_if split: if_splits)
    then show False
    proof cases
      case 1
      with assms nearest_integer_step [of n m k] show False by simp
    next
      case 2
      with assms nearest_integer_step [of n' m k] show False by simp
    qed
  qed
qed

lemma nearest_integer_iff: "nearest_integer n m k \<longleftrightarrow> n = numeric_to_integer m k"
  using numeric_to_integer_nearest nearest_integer_unique by blast

lemma to_integer_stored:
  assumes "to_integer (Some x) = Inr v"
  shows "stored_as x v"
    and "case v of None \<Rightarrow> True | Some n \<Rightarrow> - 2147483648 \<le> n \<and> n \<le> 2147483647"
  using assms
  by (cases x; auto simp: to_integer_Inr stored_as_def numeric_to_integer_nearest int4_def)+

lemma to_integer_dict_get_stored:
  assumes "to_integer (dict_get f (PyInt d)) = Inr v"
  shows "case f of Absent \<Rightarrow> v = Some d | Null \<Rightarrow> v = None | Val x \<Rightarrow> stored_as x v"
    and "case v of None \<Rightarrow> True | Some n \<Rightarrow> - 2147483648 \<le> n \<and> n \<le> 2147483647"
proof -
  show "case f of Absent \<Rightarrow> v = Some d | Null \<Rightarrow> v = None | Val x \<Rightarrow> stored_as x v"
  proof (cases f)
    case Absent
    with assms show ?thesis by (auto simp: dict_get_def to_integer_Inr)
  next
    case Null
    with assms show ?thesis by (auto simp: dict_get_def to_integer_Inr)
  next
    case (Val x)
    with assms to_integer_stored(1) [of x v] show ?thesis by (simp add: dict_get_def)
  qed
  show "case v of None \<Rightarrow> True | Some n \<Rightarrow> - 2147483648 \<le> n \<and> n \<le> 2147483647"
  proof (cases v)
    case None
    then show ?thesis by simp
  next
    case (Some n)
    with assms have "int4 n"
      by (simp add: to_integer_int4)
    with Some show ?thesis by (simp add: int4_def)
  qed
qed

text \<open>
  C9, as stated, fails: \<open>add_recipe\<close> accepts servings 0 and cooking_time -5 and stores
  them. Neither the handler nor the schema checks a sign.
\<close>

theorem unchecked_numbers_counterexample:
  "status (fst (add_recipe some_lib fresh_world odd_input)) = 201 \<and>
   map r_servings (recipes (snd (add_recipe some_lib fresh_world odd_input))) = [Some 0] \<and>
   map r_cooking_time (recipes (snd (add_recipe some_lib fresh_world odd_input))) = [Some (- 5)] \<and>
   \<not> positive (Some 0) \<and> \<not> non_negative (Some (- 5))"
proof -
  have con: "connectable fresh_world" and seq: "recipes_id_seq fresh_world \<le> 2147483647"
    by (simp_all add: fresh_world_def)
  have valid: "valid_recipe_input odd_input"
    by (simp add: valid_recipe_input_def odd_input_def text_ok_def integer_ok_def int4_def)
  have "add_recipe some_lib fresh_world odd_input =
     (\<lparr>status = 201, body = JObj [(''message'', JStr ''Recept toegevoegd''),
                                  (''recipe_id'', JInt 1)]\<rparr>,
      fresh_world\<lparr>recipes_id_seq := 2,
        recipes := [\<lparr>r_id = 1, r_title = ''Soup'', r_ingredients = Some '''',
            r_instructions = Some '''', r_cooking_time = Some (- 5), r_servings = Some 0,
            r_created_at = Some 1000\<rparr>]\<rparr>)"
    using add_recipe_valid [OF store_inv_fresh con seq valid, of "''Soup''" some_lib]
    by (simp add: odd_input_def fresh_world_def dict_get_def integer_given_def)
  then show ?thesis
    by (simp add: positive_def non_negative_def)
qed

text \<open>
  C9, amended. For a request whose servings, cooking_time and duration_minutes are
  numbers, null or omitted: when \<open>add_recipe\<close> answers 201, the one new recipe row has for
  servings and for cooking_time the number of the request, rounded to the nearest integer
  (a half away from zero) when it has a fraction, 1 and 0 when the field is omitted and
  NULL when it is null; when \<open>add_timer\<close> answers 201, the one new timer row has for
  duration_minutes the number of the request, rounded in the same way, or NULL when it is
  null. Each stored number is a 32-bit integer. Its sign is not checked: zero and negative
  numbers are stored as they are.
\<close>

theorem stored_numbers_are_the_requests:
  "(status (fst (add_recipe L w rdata)) = 201 \<longrightarrow>
      (\<exists>row. recipes (snd (add_recipe L w rdata)) = recipes w @ [row] \<and>
         (case rp_servings rdata of
            Absent \<Rightarrow> r_servings row = Some 1
          | Null \<Rightarrow> r_servings row = None
          | Val x \<Rightarrow> stored_as x (r_servings row)) \<and>
         (case rp_cooking_time rdata of
            Absent \<Rightarrow> r_cooking_time row = Some 0
          | Null \<Rightarrow> r_cooking_time row = None
          | Val x \<Rightarrow> stored_as x (r_cooking_time row)) \<and>
         (case r_servings row of
            None \<Rightarrow> True | Some n \<Rightarrow> - 2147483648 \<le> n \<and> n \<le> 2147483647) \<and>
         (case r_cooking_time row of
            None \<Rightarrow> True | Some n \<Rightarrow> - 2147483648 \<le> n \<and> n \<le> 2147483647))) \<and>
   (status (fst (add_timer L w tdata)) = 201 \<longrightarrow>
      (\<exists>row. timers (snd (add_timer L w tdata)) = timers w @ [row] \<and>
         (case tp_duration_minutes tdata of
            Absent \<Rightarrow> False
          | Null \<Rightarrow> t_duration_minutes row = None
          | Val x \<Rightarrow> stored_as x (t_duration_minutes row)) \<and>
         (case t_duration_minutes row of
            None \<Rightarrow> True | Some n \<Rightarrow> - 2147483648 \<le> n \<and> n \<le> 2147483647)))"
proof (intro conjI impI)
  assume created: "status (fst (add_recipe L w rdata)) = 201"
  with add_recipe_result [of rdata w L] obtain title i where
    "insert_recipe w title (dict_get (rp_ingredients rdata) '''')
        (dict_get (rp_instructions rdata) '''') (dict_get (rp_cooking_time rdata) (PyInt 0))
        (dict_get (rp_servings rdata) (PyInt 1)) = (Inr i, snd (add_recipe L w rdata))"
    by auto
  from insert_recipe_created [OF this] obtain row where
    w': "snd (add_recipe L w rdata) =
        w\<lparr>recipes_id_seq := recipes_id_seq w + 1, recipes := recipes w @ [row]\<rparr>" and
    c: "to_integer (dict_get (rp_cooking_time rdata) (PyInt 0)) = Inr (r_cooking_time row)" and
    s: "to_integer (dict_get (rp_servings rdata) (PyInt 1)) = Inr (r_servings row)"
    by blast
  have "recipes (snd (add_recipe L w rdata)) = recipes w @ [row]"
    by (simp add: w')
  with to_integer_dict_get_stored [OF s] to_integer_dict_get_stored [OF c]
  show "\<exists>row. recipes (snd (add_recipe L w rdata)) = recipes w @ [row] \<and>
         (case rp_servings rdata of
            Absent \<Rightarrow> r_servings row = Some 1
          | Null \<Rightarrow> r_servings row = None
          | Val x \<Rightarrow> stored_as x (r_servings row)) \<and>
         (case rp_cooking_time rdata of
            Absent \<Rightarrow> r_cooking_time row = Some 0
          | Null \<Rightarrow> r_cooking_time row = None
          | Val x \<Rightarrow> stored_as x (r_cooking_time row)) \<and>
         (case r_servings row of
            None \<Rightarrow> True | Some n \<Rightarrow> - 2147483648 \<le> n \<and> n \<le> 2147483647) \<and>
         (case r_cooking_time row of
            None \<Rightarrow> True | Some n \<Rightarrow> - 2147483648 \<le> n \<and> n \<le> 2147483647)"
    by blast
next
  let ?a = "case tp_recipe_id tdata of Val r \<Rightarrow> Some r | _ \<Rightarrow> None"
  let ?b = "case tp_step_number tdata of Val n \<Rightarrow> Some n | _ \<Rightarrow> None"
  let ?c = "dict_get (tp_step_description tdata) ''''"
  let ?d = "case tp_duration_minutes tdata of Val d \<Rightarrow> Some d | _ \<Rightarrow> None"
  assume created: "status (fst (add_timer L w tdata)) = 201"
  with add_timer_result [of tdata w L] obtain i where
    present: "tp_duration_minutes tdata \<noteq> Absent" and
    "insert_timer w ?a ?b ?c ?d = (Inr i, snd (add_timer L w tdata))"
    by auto
  from insert_timer_created [OF this(2)] obtain row where
    w': "snd (add_timer L w tdata) =
        w\<lparr>timers_id_seq := timers_id_seq w + 1, timers := timers w @ [row]\<rparr>" and
    d: "to_integer ?d = Inr (t_duration_minutes row)"
    by blast
  have stored: "case tp_duration_minutes tdata of
            Absent \<Rightarrow> False
          | Null \<Rightarrow> t_duration_minutes row = None
          | Val x \<Rightarrow> stored_as x (t_duration_minutes row)"
  proof (cases "tp_duration_minutes tdata")
    case Absent
    with present show ?thesis by simp
  next
    case Null
    with d show ?thesis by (simp add: to_integer_Inr)
  next
    case (Val x)
    with d to_integer_stored(1) [of x "t_duration_minutes row"] show ?thesis by simp
  qed
  have range: "case t_duration_minutes row of
            None \<Rightarrow> True | Some n \<Rightarrow> - 2147483648 \<le> n \<and> n \<le> 2147483647"
  proof (cases "t_duration_minutes row")
    case None
    then show ?thesis by simp
  next
    case (Some n)
    with d have "int4 n"
      by (simp add: to_integer_int4)
    with Some show ?thesis by (simp add: int4_def)
  qed
  have "timers (snd (add_timer L w tdata)) = timers w @ [row]"
    by (simp add: w')
  with stored range
  show "\<exists>row. timers (snd (add_timer L w tdata)) = timers w @ [row] \<and>
         (case tp_duration_minutes tdata of
            Absent \<Rightarrow> False
          | Null \<Rightarrow> t_duration_minutes row = None
          | Val x \<Rightarrow> stored_as x (t_duration_minutes row)) \<and>
         (case t_duration_minutes row of
            None \<Rightarrow> True | Some n \<Rightarrow> - 2147483648 \<le> n \<and> n \<le> 2147483647)"
    by blast
qed

theorem stored_numbers_are_the_requests_witness:
  "status (fst (add_recipe some_lib fresh_world halves_input)) = 201 \<and>
   map r_servings (recipes (snd (add_recipe some_lib fresh_world halves_input))) = [Some 3] \<and>
   map r_cooking_time (recipes (snd (add_recipe some_lib fresh_world halves_input))) = [Some 4] \<and>
   nearest_integer 3 25 1 \<and> nearest_integer 4 35 1 \<and>
   status (fst (add_timer some_lib pasta_world half_timer_input)) = 201 \<and>
   map t_duration_minutes (timers (snd (add_timer some_lib pasta_world half_timer_input))) =
     [Some 5, Some 10, Some (- 3)] \<and>
   nearest_integer (- 3) (- 25) 1"
proof -
  let ?row = "\<lparr>r_id = 1, r_title = ''Stew'', r_ingredients = Some '''',
      r_instructions = Some '''', r_cooking_time = Some 4, r_servings = Some 3,
      r_created_at = Some 1000\<rparr>"
  have title: "rp_title halves_input = Val ''Stew''"
    by (simp add: halves_input_def)
  have add: "add_recipe some_lib fresh_world halves_input =
     (\<lparr>status = 201, body = JObj [(''message'', JStr ''Recept toegevoegd''),
                                  (''recipe_id'', JInt 1)]\<rparr>,
      fresh_world\<lparr>recipes_id_seq := recipes_id_seq fresh_world + 1,
        recipes := recipes fresh_world @ [?row]\<rparr>)"
    using add_recipe_stores [of fresh_world halves_input "''Stew''" "''Stew''" "Some 4" "Some 3"
        some_lib, OF _ _ _ title]
    by (simp add: fresh_world_def halves_input_def text_ok_def dict_get_def to_varchar_def
        to_integer_def numeric_to_integer_def int4_def)
  then have r201: "status (fst (add_recipe some_lib fresh_world halves_input)) = 201"
    by simp
  have rows: "recipes (snd (add_recipe some_lib fresh_world halves_input)) = [?row]"
    by (simp add: add) (simp add: fresh_world_def)
  from stored_numbers_are_the_requests
    [of some_lib fresh_world halves_input, THEN conjunct1, rule_format, OF r201]
  obtain row where
    R: "recipes (snd (add_recipe some_lib fresh_world halves_input)) = recipes fresh_world @ [row]"
    and S: "stored_as (PyFloat 25 1) (r_servings row)"
      "stored_as (PyFloat 35 1) (r_cooking_time row)"
    by (auto simp: halves_input_def)
  from R have "row = ?row"
    unfolding rows by (auto simp: fresh_world_def)
  with S have near: "nearest_integer 3 25 1" "nearest_integer 4 35 1"
    by (simp_all add: stored_as_def)
  have vals: "timer_values (Some (PyInt 1)) (Some (PyInt 3)) (Some '''') (Some (PyFloat (- 25) 1)) =
      Inr (Some 1, Some 3, Some '''', Some (- 3))"
  proof -
    have "to_integer (Some (PyFloat (- 25) 1)) = Inr (Some (- 3))"
      by (simp add: to_integer_def numeric_to_integer_def int4_def)
    then show ?thesis
      by (simp add: timer_values_def adapt_text_def to_integer_PyInt int4_def)
  qed
  have ins: "insert_timer pasta_world (Some (PyInt 1)) (Some (PyInt 3)) (Some '''')
      (Some (PyFloat (- 25) 1)) =
      (Inr 3, pasta_world\<lparr>timers_id_seq := timers_id_seq pasta_world + 1,
         timers := timers pasta_world @
           [\<lparr>t_id = 3, t_recipe_id = Some 1, t_step_number = 3,
             t_step_description = Some '''', t_duration_minutes = Some (- 3),
             t_active = Some False, t_created_at = Some 4000\<rparr>]\<rparr>)"
    using vals by (simp add: insert_timer_Inr references_def) (simp add: pasta_world_def)
  have tadd: "add_timer some_lib pasta_world half_timer_input =
      (\<lparr>status = 201, body = JObj [(''message'', JStr ''Timer toegevoegd''),
                                   (''timer_id'', JInt 3)]\<rparr>,
       pasta_world\<lparr>timers_id_seq := timers_id_seq pasta_world + 1,
         timers := timers pasta_world @
           [\<lparr>t_id = 3, t_recipe_id = Some 1, t_step_number = 3,
             t_step_description = Some '''', t_duration_minutes = Some (- 3),
             t_active = Some False, t_created_at = Some 4000\<rparr>]\<rparr>)"
    using ins
    by (simp add: add_timer_def half_timer_input_def get_db_connection_def subscript_def
        dict_get_def jsonify_def) (simp add: pasta_world_def)
  then have t201: "status (fst (add_timer some_lib pasta_world half_timer_input)) = 201"
    by simp
  have trows: "map t_duration_minutes
      (timers (snd (add_timer some_lib pasta_world half_timer_input))) =
      [Some 5, Some 10, Some (- 3)]"
    by (simp add: tadd) (simp add: pasta_world_def)
  from stored_numbers_are_the_requests
    [of some_lib pasta_world _ half_timer_input, THEN conjunct2, rule_format, OF t201]
  obtain trow where
    T: "timers (snd (add_timer some_lib pasta_world half_timer_input)) =
        timers pasta_world @ [trow]"
    and D: "stored_as (PyFloat (- 25) 1) (t_duration_minutes trow)"
    by (auto simp: half_timer_input_def)
  from T have "t_duration_minutes trow = Some (- 3)"
    unfolding tadd by auto
  with D have tnear: "nearest_integer (- 3) (- 25) 1"
    by (simp add: stored_as_def)
  show ?thesis
    using r201 rows near t201 trows tnear by simp
qed

end
